theory Spec2Isabelle
  imports Complex_Main "HOL-Library.AList" "HOL-Library.Multiset" "HOL-Library.Product_Lexorder"
    "HOL-Library.Char_ord" "HOL-Library.List_Lexorder"
begin

section \<open>Export utility (src/lib/supabase.ts, exportToCSV)\<close>

text \<open>
  The records handed to \<open>exportToCSV\<close> are JavaScript objects. A value is one of the
  primitive kinds, or an object or function, which is given by the text its conversion
  to a string yields. A record is the list of its own properties in the order
  \<open>Object.keys\<close> enumerates them; what it inherits through its prototype chain is a
  second such list, \<open>proto\<close>. The rendering of a number (ECMAScript
  \<open>Number::toString\<close>) is a parameter \<open>numstr\<close> of the functions below.
\<close>

datatype 'n jsval =
  JUndefined | JNull | JBoolean bool | JNumber 'n | JString string | JObject string

type_synonym 'n jsobject = "(string \<times> 'n jsval) list"

definition comma :: char where
  "comma = CHR '',''"

definition dquote :: char where
  "dquote = CHR 0x22"

definition newline :: char where
  "newline = CHR 0x0A"

text \<open>
  \<open>Object.keys(obj)\<close>, which lists own properties only, and the property read
  \<open>obj[k]\<close>, which looks for an own property first, then for an inherited one, and
  reads \<open>undefined\<close> when there is neither.
\<close>

definition object_keys :: "'n jsobject \<Rightarrow> string list" where
  "object_keys obj = map fst obj"

definition get_property :: "'n jsobject \<Rightarrow> 'n jsobject \<Rightarrow> string \<Rightarrow> 'n jsval" where
  "get_property proto obj k =
     (case map_of obj k of
        Some v \<Rightarrow> v
      | None \<Rightarrow> (case map_of proto k of Some v \<Rightarrow> v | None \<Rightarrow> JUndefined))"

text \<open>
  What a plain object (an object literal, or a row parsed from JSON) inherits: the
  properties of \<open>Object.prototype\<close>. The built-in functions are printed the way V8
  prints them (the text is up to the engine, and is never empty); \<open>__proto__\<close> reads
  the prototype object itself.
\<close>

definition native_function :: "string \<Rightarrow> 'n jsval" where
  "native_function name = JObject (''function '' @ name @ ''() { [native code] }'')"

definition object_prototype :: "'n jsobject" where
  "object_prototype =
     [(''constructor'', native_function ''Object''),
      (''__defineGetter__'', native_function ''__defineGetter__''),
      (''__defineSetter__'', native_function ''__defineSetter__''),
      (''hasOwnProperty'', native_function ''hasOwnProperty''),
      (''__lookupGetter__'', native_function ''__lookupGetter__''),
      (''__lookupSetter__'', native_function ''__lookupSetter__''),
      (''isPrototypeOf'', native_function ''isPrototypeOf''),
      (''propertyIsEnumerable'', native_function ''propertyIsEnumerable''),
      (''toString'', native_function ''toString''),
      (''valueOf'', native_function ''valueOf''),
      (''__proto__'', JObject ''[object Object]''),
      (''toLocaleString'', native_function ''toLocaleString'')]"

text \<open>\<open>Array.prototype.join\<close> on strings.\<close>

fun join :: "string \<Rightarrow> string list \<Rightarrow> string" where
  "join sep [] = []"
| "join sep [x] = x"
| "join sep (x # y # ys) = x @ sep @ join sep (y # ys)"

text \<open>
  \<open>Array.prototype.join\<close> on values: \<open>undefined\<close> and \<open>null\<close> elements become the
  empty string, every other element its \<open>ToString\<close>.
\<close>

fun join_element :: "('n \<Rightarrow> string) \<Rightarrow> 'n jsval \<Rightarrow> string" where
  "join_element numstr JUndefined = []"
| "join_element numstr JNull = []"
| "join_element numstr (JBoolean b) = (if b then ''true'' else ''false'')"
| "join_element numstr (JNumber n) = numstr n"
| "join_element numstr (JString s) = s"
| "join_element numstr (JObject text) = text"

definition join_values :: "('n \<Rightarrow> string) \<Rightarrow> string \<Rightarrow> 'n jsval list \<Rightarrow> string" where
  "join_values numstr sep vs = join sep (map (join_element numstr) vs)"

text \<open>
  The callback of the inner \<open>headers.map\<close>:
  \<^verbatim>\<open>typeof value === 'string' && value.includes(',') ? `"${value}"` : value\<close>
\<close>

fun csv_cell :: "'n jsval \<Rightarrow> 'n jsval" where
  "csv_cell (JString s) = (if comma \<in> set s then JString (dquote # s @ [dquote]) else JString s)"
| "csv_cell v = v"

definition csv_row :: "'n jsobject \<Rightarrow> string list \<Rightarrow> 'n jsobject \<Rightarrow> 'n jsval list" where
  "csv_row proto headers row = map (\<lambda>header. csv_cell (get_property proto row header)) headers"

definition csv_lines ::
  "('n \<Rightarrow> string) \<Rightarrow> 'n jsobject \<Rightarrow> 'n jsobject \<Rightarrow> 'n jsobject list \<Rightarrow> string list" where
  "csv_lines numstr proto first data =
     (let headers = object_keys first
      in join [comma] headers
         # map (\<lambda>row. join_values numstr [comma] (csv_row proto headers row)) data)"

definition csvContent ::
  "('n \<Rightarrow> string) \<Rightarrow> 'n jsobject \<Rightarrow> 'n jsobject \<Rightarrow> 'n jsobject list \<Rightarrow> string" where
  "csvContent numstr proto first data = join [newline] (csv_lines numstr proto first data)"

text \<open>
  What \<open>exportToCSV\<close> does to the browser, in the order of its statements. The object
  URL is chosen by the browser; the \<open>href\<close> attribute refers to it symbolically.
\<close>

datatype attr_value = ObjectURL | Literal string

datatype dom_effect =
    NewBlob string string
  | CreateElement string
  | CreateObjectURL
  | SetAttribute string attr_value
  | SetStyle string string
  | AppendChild
  | Click
  | RemoveChild

definition exportToCSV ::
  "('n \<Rightarrow> string) \<Rightarrow> 'n jsobject \<Rightarrow> 'n jsobject list \<Rightarrow> string \<Rightarrow> dom_effect list" where
  "exportToCSV numstr proto data filename =
     (case data of
        [] \<Rightarrow> []
      | first # _ \<Rightarrow>
          [NewBlob (csvContent numstr proto first data) ''text/csv;charset=utf-8;'',
           CreateElement ''a'',
           CreateObjectURL,
           SetAttribute ''href'' ObjectURL,
           SetAttribute ''download'' (Literal filename),
           SetStyle ''visibility'' ''hidden'',
           AppendChild,
           Click,
           RemoveChild])"

text \<open>The file a run hands to the browser: its name and its content, if any.\<close>

fun downloaded :: "dom_effect list \<Rightarrow> (string \<times> string) option" where
  "downloaded (NewBlob content mime # CreateElement tag # CreateObjectURL
      # SetAttribute h ObjectURL # SetAttribute d (Literal filename) # rest) =
     (if Click \<in> set rest then Some (filename, content) else None)"
| "downloaded effects = None"

section \<open>The backend client (the calls of \<open>@supabase/supabase-js\<close> the source makes)\<close>

text \<open>
  Values of table columns. Identifiers and free text are \<open>VText\<close>, amounts are
  rationals, a calendar date is (year, month 1..12, day), a timestamp is a number of
  clock ticks. Dates and timestamps travel as ISO strings; the model carries the value
  the string denotes. A row is a JSON object: its columns with their values.
\<close>

type_synonym date = "int \<times> nat \<times> nat"

datatype val = VNull | VText string | VNum rat | VDate date | VTime nat

type_synonym row = "(string \<times> val) list"

text \<open>
  A request, as the source builds it by chaining
  \<open>from(t)\<close>, \<open>select\<close>/\<open>insert\<close>/\<open>update\<close>/\<open>delete\<close>, \<open>eq\<close>, \<open>gte\<close>, \<open>order\<close>,
  \<open>select()\<close> after a mutation, and \<open>single()\<close>.
\<close>

datatype filter = Eq string val | Gte string val

datatype verb = SELECT string | INSERT "row list" | UPDATE row | DELETE

record request =
  tbl :: string
  verb :: verb
  filters :: "filter list"
  order_by :: "(string \<times> bool) option"
  returning :: "string option"
  single :: bool

definition from_table :: "string \<Rightarrow> string" where
  "from_table t = t"

definition select_cols :: "string \<Rightarrow> string \<Rightarrow> request" where
  "select_cols t cols =
     \<lparr>tbl = t, verb = SELECT cols, filters = [], order_by = None, returning = None, single = False\<rparr>"

definition insert_rows :: "string \<Rightarrow> row list \<Rightarrow> request" where
  "insert_rows t rows =
     \<lparr>tbl = t, verb = INSERT rows, filters = [], order_by = None, returning = None, single = False\<rparr>"

definition update_values :: "string \<Rightarrow> row \<Rightarrow> request" where
  "update_values t vals =
     \<lparr>tbl = t, verb = UPDATE vals, filters = [], order_by = None, returning = None, single = False\<rparr>"

definition delete_rows :: "string \<Rightarrow> request" where
  "delete_rows t =
     \<lparr>tbl = t, verb = DELETE, filters = [], order_by = None, returning = None, single = False\<rparr>"

definition eq_filter :: "string \<Rightarrow> val \<Rightarrow> request \<Rightarrow> request" where
  "eq_filter c v q = q\<lparr>filters := filters q @ [Eq c v]\<rparr>"

definition gte_filter :: "string \<Rightarrow> val \<Rightarrow> request \<Rightarrow> request" where
  "gte_filter c v q = q\<lparr>filters := filters q @ [Gte c v]\<rparr>"

definition order_desc :: "string \<Rightarrow> request \<Rightarrow> request" where
  \<comment> \<open>\<open>.order(c, { ascending: false })\<close>\<close>
  "order_desc c q = q\<lparr>order_by := Some (c, False)\<rparr>"

definition select_returning :: "request \<Rightarrow> request" where
  \<comment> \<open>\<open>.select()\<close> after a mutation: return the rows written, all columns\<close>
  "select_returning q = q\<lparr>returning := Some ''*''\<rparr>"

definition single_row :: "request \<Rightarrow> request" where
  "single_row q = q\<lparr>single := True\<rparr>"

text \<open>
  The client resolves every call with an object \<open>{ data, error }\<close>; \<open>data\<close> is
  \<open>null\<close>, one row or a list of rows. The error object is the backend's and is opaque
  to the code: its type is a parameter.
\<close>

datatype data = NoData | OneRow row | ManyRows "row list"

record 'e response =
  data :: data
  error :: "'e option"

text \<open>
  An \<open>async\<close> function is a program that sends a request, is suspended until the
  response arrives, and goes on with it. \<open>run\<close> executes a program against a backend
  that answers a request in a state and leaves a new state; \<open>trace\<close> lists what
  happens on the wire, in order.
\<close>

datatype ('q, 'r, 'a) prog = Return 'a | Await 'q "'r \<Rightarrow> ('q, 'r, 'a) prog"

type_synonym ('q, 'r, 's) backend = "'q \<Rightarrow> 's \<Rightarrow> 'r \<times> 's"

primrec run :: "('q, 'r, 's) backend \<Rightarrow> ('q, 'r, 'a) prog \<Rightarrow> 's \<Rightarrow> 'a \<times> 's" where
  "run b (Return x) = (\<lambda>s. (x, s))"
| "run b (Await q k) = (\<lambda>s. case b q s of (r, s') \<Rightarrow> run b (k r) s')"

datatype ('q, 'r) event = Sent 'q | Received 'q 'r

primrec trace :: "('q, 'r, 's) backend \<Rightarrow> ('q, 'r, 'a) prog \<Rightarrow> 's \<Rightarrow> ('q, 'r) event list" where
  "trace b (Return x) = (\<lambda>s. [])"
| "trace b (Await q k) = (\<lambda>s. case b q s of (r, s') \<Rightarrow> Sent q # Received q r # trace b (k r) s')"

text \<open>The request whose response arrives first in a trace.\<close>

fun first_completed :: "('q, 'r) event list \<Rightarrow> 'q option" where
  "first_completed [] = None"
| "first_completed (Sent q # es) = first_completed es"
| "first_completed (Received q r # es) = Some q"

text \<open>
  A function relays the backend when it makes exactly one call and returns the \<open>data\<close>
  and the \<open>error\<close> of the response as they are (\<open>relays_error\<close>: the \<open>error\<close> alone).
\<close>

definition relays :: "('q, 'e response, 's) backend \<Rightarrow> 's \<Rightarrow> ('q, 'e response, data \<times> 'e option) prog \<Rightarrow> bool" where
  "relays b s p =
     (\<exists>q. trace b p s = [Sent q, Received q (fst (b q s))]
          \<and> run b p s = ((data (fst (b q s)), error (fst (b q s))), snd (b q s)))"

definition relays_error :: "('q, 'e response, 's) backend \<Rightarrow> 's \<Rightarrow> ('q, 'e response, 'e option) prog \<Rightarrow> bool" where
  "relays_error b s p =
     (\<exists>q. trace b p s = [Sent q, Received q (fst (b q s))]
          \<and> run b p s = (error (fst (b q s)), snd (b q s)))"

section \<open>Authentication functions\<close>

text \<open>
  The identity provider's requests. The data of an answer always carries a \<open>user\<close>
  field (possibly \<open>null\<close>); whatever else it carries is left open.
\<close>

datatype user_type = Freelancer | ECommerce

fun user_type_text :: "user_type \<Rightarrow> string" where
  "user_type_text Freelancer = ''freelancer''"
| "user_type_text ECommerce = ''e-commerce''"

datatype auth_request =
    AuthSignUp string string "(string \<times> string) list" string
  | AuthSignInWithOAuth string string
  | AuthSignInWithPassword string string
  | AuthSignOut
  | AuthGetUser

record 'u auth_data =
  user :: "'u option"

record ('d, 'e) auth_response =
  auth_data :: 'd
  auth_error :: "'e option"

definition signUp ::
  "string \<Rightarrow> string \<Rightarrow> string \<Rightarrow> string \<Rightarrow> user_type \<Rightarrow> (auth_request, ('d, 'e) auth_response, 'd \<times> 'e option) prog" where
  \<comment> \<open>\<open>origin\<close> is \<open>window.location.origin\<close>\<close>
  "signUp origin email password name userType =
     Await (AuthSignUp email password [(''name'', name), (''user_type'', user_type_text userType)]
              (origin @ ''/dashboard''))
       (\<lambda>r. Return (auth_data r, auth_error r))"

definition signInWithGoogle ::
  "string \<Rightarrow> (auth_request, ('d, 'e) auth_response, 'd \<times> 'e option) prog" where
  "signInWithGoogle origin =
     Await (AuthSignInWithOAuth ''google'' (origin @ ''/dashboard''))
       (\<lambda>r. Return (auth_data r, auth_error r))"

definition signIn ::
  "string \<Rightarrow> string \<Rightarrow> (auth_request, ('d, 'e) auth_response, 'd \<times> 'e option) prog" where
  "signIn email password =
     Await (AuthSignInWithPassword email password) (\<lambda>r. Return (auth_data r, auth_error r))"

definition signOut :: "(auth_request, ('d, 'e) auth_response, 'e option) prog" where
  "signOut = Await AuthSignOut (\<lambda>r. Return (auth_error r))"

definition getCurrentUser ::
  "(auth_request, (('u, 'z) auth_data_scheme, 'e) auth_response, 'u option \<times> 'e option) prog" where
  "getCurrentUser = Await AuthGetUser (\<lambda>r. Return (user (auth_data r), auth_error r))"

section \<open>User profile functions\<close>

definition getUserProfile :: "string \<Rightarrow> (request, 'e response, data \<times> 'e option) prog" where
  "getUserProfile userId =
     Await (single_row (eq_filter ''id'' (VText userId) (select_cols (from_table ''user_profiles'') ''*'')))
       (\<lambda>r. Return (data r, error r))"

definition updateUserProfile :: "string \<Rightarrow> row \<Rightarrow> (request, 'e response, data \<times> 'e option) prog" where
  "updateUserProfile userId updates =
     Await (single_row (select_returning (eq_filter ''id'' (VText userId)
              (update_values (from_table ''user_profiles'') updates))))
       (\<lambda>r. Return (data r, error r))"

section \<open>Income functions\<close>

definition getIncome :: "string \<Rightarrow> (request, 'e response, data \<times> 'e option) prog" where
  "getIncome userId =
     Await (order_desc ''date'' (eq_filter ''user_id'' (VText userId) (select_cols (from_table ''income'') ''*'')))
       (\<lambda>r. Return (data r, error r))"

definition addIncome :: "row \<Rightarrow> (request, 'e response, data \<times> 'e option) prog" where
  "addIncome income =
     Await (single_row (select_returning (insert_rows (from_table ''income'') [income])))
       (\<lambda>r. Return (data r, error r))"

definition updateIncome :: "string \<Rightarrow> row \<Rightarrow> (request, 'e response, data \<times> 'e option) prog" where
  "updateIncome rowId updates =
     Await (single_row (select_returning (eq_filter ''id'' (VText rowId)
              (update_values (from_table ''income'') updates))))
       (\<lambda>r. Return (data r, error r))"

definition deleteIncome :: "string \<Rightarrow> (request, 'e response, 'e option) prog" where
  "deleteIncome rowId =
     Await (eq_filter ''id'' (VText rowId) (delete_rows (from_table ''income'')))
       (\<lambda>r. Return (error r))"

section \<open>Expense functions\<close>

definition getExpenses :: "string \<Rightarrow> (request, 'e response, data \<times> 'e option) prog" where
  "getExpenses userId =
     Await (order_desc ''date'' (eq_filter ''user_id'' (VText userId) (select_cols (from_table ''expenses'') ''*'')))
       (\<lambda>r. Return (data r, error r))"

definition addExpense :: "row \<Rightarrow> (request, 'e response, data \<times> 'e option) prog" where
  "addExpense expense =
     Await (single_row (select_returning (insert_rows (from_table ''expenses'') [expense])))
       (\<lambda>r. Return (data r, error r))"

definition updateExpense :: "string \<Rightarrow> row \<Rightarrow> (request, 'e response, data \<times> 'e option) prog" where
  "updateExpense rowId updates =
     Await (single_row (select_returning (eq_filter ''id'' (VText rowId)
              (update_values (from_table ''expenses'') updates))))
       (\<lambda>r. Return (data r, error r))"

definition deleteExpense :: "string \<Rightarrow> (request, 'e response, 'e option) prog" where
  "deleteExpense rowId =
     Await (eq_filter ''id'' (VText rowId) (delete_rows (from_table ''expenses'')))
       (\<lambda>r. Return (error r))"

section \<open>Investment functions\<close>

definition getInvestments :: "string \<Rightarrow> (request, 'e response, data \<times> 'e option) prog" where
  "getInvestments userId =
     Await (order_desc ''date'' (eq_filter ''user_id'' (VText userId) (select_cols (from_table ''investments'') ''*'')))
       (\<lambda>r. Return (data r, error r))"

definition addInvestment :: "row \<Rightarrow> (request, 'e response, data \<times> 'e option) prog" where
  "addInvestment investment =
     Await (single_row (select_returning (insert_rows (from_table ''investments'') [investment])))
       (\<lambda>r. Return (data r, error r))"

definition updateInvestment :: "string \<Rightarrow> row \<Rightarrow> (request, 'e response, data \<times> 'e option) prog" where
  "updateInvestment rowId updates =
     Await (single_row (select_returning (eq_filter ''id'' (VText rowId)
              (update_values (from_table ''investments'') updates))))
       (\<lambda>r. Return (data r, error r))"

definition deleteInvestment :: "string \<Rightarrow> (request, 'e response, 'e option) prog" where
  "deleteInvestment rowId =
     Await (eq_filter ''id'' (VText rowId) (delete_rows (from_table ''investments'')))
       (\<lambda>r. Return (error r))"

section \<open>Savings functions\<close>

definition getSavingsGoals :: "string \<Rightarrow> (request, 'e response, data \<times> 'e option) prog" where
  "getSavingsGoals userId =
     Await (order_desc ''created_at'' (eq_filter ''user_id'' (VText userId) (select_cols (from_table ''savings'') ''*'')))
       (\<lambda>r. Return (data r, error r))"

definition addSavingsGoal :: "row \<Rightarrow> (request, 'e response, data \<times> 'e option) prog" where
  "addSavingsGoal goal =
     Await (single_row (select_returning (insert_rows (from_table ''savings'') [goal])))
       (\<lambda>r. Return (data r, error r))"

definition updateSavingsGoal :: "string \<Rightarrow> row \<Rightarrow> (request, 'e response, data \<times> 'e option) prog" where
  "updateSavingsGoal rowId updates =
     Await (single_row (select_returning (eq_filter ''id'' (VText rowId)
              (update_values (from_table ''savings'') updates))))
       (\<lambda>r. Return (data r, error r))"

definition deleteSavingsGoal :: "string \<Rightarrow> (request, 'e response, 'e option) prog" where
  "deleteSavingsGoal rowId =
     Await (eq_filter ''id'' (VText rowId) (delete_rows (from_table ''savings'')))
       (\<lambda>r. Return (error r))"

section \<open>Budget functions\<close>

definition getBudgets :: "string \<Rightarrow> (request, 'e response, data \<times> 'e option) prog" where
  "getBudgets userId =
     Await (order_desc ''created_at'' (eq_filter ''user_id'' (VText userId) (select_cols (from_table ''budgets'') ''*'')))
       (\<lambda>r. Return (data r, error r))"

definition addBudget :: "row \<Rightarrow> (request, 'e response, data \<times> 'e option) prog" where
  "addBudget budget =
     Await (single_row (select_returning (insert_rows (from_table ''budgets'') [budget])))
       (\<lambda>r. Return (data r, error r))"

definition updateBudget :: "string \<Rightarrow> row \<Rightarrow> (request, 'e response, data \<times> 'e option) prog" where
  "updateBudget rowId updates =
     Await (single_row (select_returning (eq_filter ''id'' (VText rowId)
              (update_values (from_table ''budgets'') updates))))
       (\<lambda>r. Return (data r, error r))"

definition deleteBudget :: "string \<Rightarrow> (request, 'e response, 'e option) prog" where
  "deleteBudget rowId =
     Await (eq_filter ''id'' (VText rowId) (delete_rows (from_table ''budgets'')))
       (\<lambda>r. Return (error r))"

section \<open>Analytics functions\<close>

text \<open>
  \<open>new Date()\<close> is read through its local calendar fields (\<open>getFullYear\<close>,
  \<open>getMonth\<close> counted from 0, \<open>getDate\<close>) and the milliseconds since local
  midnight (a date the clock yields has a month below 12 and a day that its month has).
  \<open>setMonth\<close> works on these local fields; \<open>toISOString\<close> prints the same instant
  in UTC. The zone is a parameter \<open>tza\<close>: the milliseconds by which local time is
  ahead of UTC at a given local time (ECMAScript \<open>LocalTZA\<close>).
\<close>

record jsdate =
  fullYear :: int
  month :: nat
  day :: nat
  msOfDay :: int

definition msPerDay :: int where
  "msPerDay = 86400000"

definition leap_year :: "int \<Rightarrow> bool" where
  "leap_year y = (y mod 4 = 0 \<and> (y mod 100 \<noteq> 0 \<or> y mod 400 = 0))"

definition days_in_month :: "int \<Rightarrow> nat \<Rightarrow> nat" where
  \<comment> \<open>months counted from 0\<close>
  "days_in_month y m =
     (if m = 1 then (if leap_year y then 29 else 28)
      else if m \<in> {3, 5, 8, 10} then 30 else 31)"

definition setMonth :: "jsdate \<Rightarrow> int \<Rightarrow> jsdate" where
  \<comment> \<open>ECMAScript \<open>MakeDay\<close>: the month is taken modulo 12 with the year carried, and a
      day past the end of that month runs on into the next one; the time of day stays\<close>
  "setMonth d m =
     (let y = fullYear d + m div 12;
          mn = nat (m mod 12)
      in if day d \<le> days_in_month y mn then d\<lparr>fullYear := y, month := mn\<rparr>
         else if mn = 11
           then d\<lparr>fullYear := y + 1, month := 0, day := day d - days_in_month y mn\<rparr>
           else d\<lparr>fullYear := y, month := mn + 1, day := day d - days_in_month y mn\<rparr>)"

text \<open>The day after and the day before a calendar date (months counted from 1).\<close>

fun next_day :: "date \<Rightarrow> date" where
  "next_day (y, m, d) =
     (if d < days_in_month y (m - 1) then (y, m, d + 1)
      else if m = 12 then (y + 1, 1, 1)
      else (y, m + 1, 1))"

fun prev_day :: "date \<Rightarrow> date" where
  "prev_day (y, m, d) =
     (if 1 < d then (y, m, d - 1)
      else if m = 1 then (y - 1, 12, 31)
      else (y, m - 1, days_in_month y (m - 2)))"

definition isoDate :: "(jsdate \<Rightarrow> int) \<Rightarrow> jsdate \<Rightarrow> date" where
  \<comment> \<open>\<open>toISOString().split('T')[0]\<close>: the UTC date of the instant whose local fields are \<open>d\<close>\<close>
  "isoDate tza d =
     (let shift = (msOfDay d - tza d) div msPerDay;
          local = (fullYear d, month d + 1, day d)
      in if 0 \<le> shift then (next_day ^^ nat shift) local
         else (prev_day ^^ nat (- shift)) local)"

record 'e monthly =
  incomeData :: data
  expenseData :: data
  incomeError :: "'e option"
  expenseError :: "'e option"

definition getMonthlyData ::
  "(jsdate \<Rightarrow> int) \<Rightarrow> jsdate \<Rightarrow> string \<Rightarrow> (request, 'e response, 'e monthly) prog" where
  \<comment> \<open>\<open>today\<close> is the value of \<open>new Date()\<close>\<close>
  "getMonthlyData tza today userId =
     (let sixMonthsAgo = setMonth today (int (month today) - 6)
      in Await (gte_filter ''date'' (VDate (isoDate tza sixMonthsAgo))
                  (eq_filter ''user_id'' (VText userId) (select_cols (from_table ''income'') ''amount, date'')))
           (\<lambda>income.
              Await (gte_filter ''date'' (VDate (isoDate tza sixMonthsAgo))
                       (eq_filter ''user_id'' (VText userId) (select_cols (from_table ''expenses'') ''amount, date'')))
                (\<lambda>expense.
                   Return \<lparr>incomeData = data income, expenseData = data expense,
                           incomeError = error income, expenseError = error expense\<rparr>)))"

definition getExpensesByCategory :: "string \<Rightarrow> (request, 'e response, data \<times> 'e option) prog" where
  "getExpensesByCategory userId =
     Await (eq_filter ''user_id'' (VText userId) (select_cols (from_table ''expenses'') ''category, amount''))
       (\<lambda>r. Return (data r, error r))"

section \<open>The database behind the client\<close>

text \<open>
  The backend the requests reach: tables of rows, queried through the REST interface
  under row-level security. The table and column names are those of the interfaces
  declared in \<open>src/lib/supabase.ts\<close>; the column types, constraints and policies of
  \<open>budgets\<close> are those of the migration.
\<close>

definition schema :: "(string \<times> string list) list" where
  "schema =
     [(''user_profiles'', [''id'', ''name'', ''user_type'', ''created_at'', ''updated_at'']),
      (''income'', [''id'', ''user_id'', ''amount'', ''source'', ''date'', ''category'', ''notes'',
                    ''created_at'', ''updated_at'']),
      (''expenses'', [''id'', ''user_id'', ''amount'', ''vendor'', ''date'', ''category'', ''notes'',
                      ''created_at'', ''updated_at'']),
      (''investments'', [''id'', ''user_id'', ''type'', ''amount'', ''date'', ''platform'', ''notes'',
                         ''created_at'', ''updated_at'']),
      (''savings'', [''id'', ''user_id'', ''goal_name'', ''target_amount'', ''deadline'',
                     ''current_amount'', ''notes'', ''created_at'', ''updated_at'']),
      (''budgets'', [''id'', ''user_id'', ''category'', ''budget_limit'', ''start_date'',
                     ''created_at'', ''updated_at''])]"

definition table_columns :: "string \<Rightarrow> string list option" where
  "table_columns t = map_of schema t"

datatype coltype = TUuid | TText | TNumeric nat nat | TDate | TTimestamptz

definition column_type :: "string \<Rightarrow> string \<Rightarrow> coltype option" where
  \<comment> \<open>the column types of \<open>CREATE TABLE budgets\<close>; those of the other tables are not declared\<close>
  "column_type t c =
     (if t = ''budgets'' then
        map_of [(''id'', TUuid), (''user_id'', TUuid), (''category'', TText),
                (''budget_limit'', TNumeric 12 2), (''start_date'', TDate),
                (''created_at'', TTimestamptz), (''updated_at'', TTimestamptz)] c
      else None)"

definition not_null_columns :: "string \<Rightarrow> string list" where
  \<comment> \<open>the primary key of every table, and the \<open>NOT NULL\<close> columns of \<open>budgets\<close>\<close>
  "not_null_columns t =
     (if t = ''budgets'' then [''id'', ''user_id'', ''category'', ''budget_limit'', ''start_date'']
      else [''id''])"

text \<open>
  The errors of the backend. \<open>InvalidInput\<close> and \<open>NumericOverflow\<close> are data
  exceptions (SQLSTATE class 22: a value that is no value of the column's type, or a
  number with more digits than the column holds); a \<open>ConstraintViolation\<close> is an
  integrity-constraint violation (class 23) and names the constraint.
\<close>

datatype violated = NotNull string | CheckConstraint string | PrimaryKey

datatype db_error =
    UndefinedTable string
  | UndefinedColumn string
  | InvalidInput string
  | NumericOverflow string
  | AuthorizationFailure
  | ConstraintViolation violated
  | NotSingular

text \<open>
  The state of the backend as one request sees it: the tables, the identity the
  request's token authenticates (\<open>auth.uid()\<close>; \<open>None\<close> for an anonymous caller), the
  clock (\<open>now()\<close>), and the identifiers \<open>gen_random_uuid()\<close> will hand out.
\<close>

record world =
  tables :: "string \<Rightarrow> row list"
  uid :: "string option"
  now :: nat
  uuids :: "nat \<Rightarrow> string"
  issued :: nat

definition field :: "row \<Rightarrow> string \<Rightarrow> val" where
  "field r c = (case map_of r c of None \<Rightarrow> VNull | Some v \<Rightarrow> v)"

definition owner_column :: "string \<Rightarrow> string" where
  \<comment> \<open>the column the source filters on by user: \<open>id\<close> for profiles, \<open>user_id\<close> elsewhere\<close>
  "owner_column t = (if t = ''user_profiles'' then ''id'' else ''user_id'')"

definition owned :: "string \<Rightarrow> string \<Rightarrow> row \<Rightarrow> bool" where
  "owned t u r = (field r (owner_column t) = VText u)"

definition budgets_policy :: "string option \<Rightarrow> row \<Rightarrow> bool" where
  \<comment> \<open>the four policies of the migration, each \<open>TO authenticated\<close> with the expression
      \<open>auth.uid() = user_id\<close>\<close>
  "budgets_policy caller r = (case caller of None \<Rightarrow> False | Some u \<Rightarrow> field r ''user_id'' = VText u)"

text \<open>
  Modelled from the spec: the row-level-security policies of \<open>income\<close>, \<open>expenses\<close>,
  \<open>investments\<close>, \<open>savings\<close> and \<open>user_profiles\<close>, whose migrations are not among the
  sources. Each restricts all operations to rows where the owning-user column equals the
  caller's authenticated identity.
\<close>

definition owner_policy :: "string \<Rightarrow> string option \<Rightarrow> row \<Rightarrow> bool" where
  "owner_policy t caller r = (case caller of None \<Rightarrow> False | Some u \<Rightarrow> owned t u r)"

definition visible :: "world \<Rightarrow> string \<Rightarrow> row \<Rightarrow> bool" where
  "visible w t r = (if t = ''budgets'' then budgets_policy (uid w) r else owner_policy t (uid w) r)"

text \<open>
  Modelled from the spec: the trigger function \<open>handle_updated_at()\<close>, which the
  migration attaches to \<open>budgets\<close> before each row update but does not define, and which
  the spec puts on every table: \<open>updated_at\<close> is refreshed on every mutation.
\<close>

definition handle_updated_at :: "world \<Rightarrow> row \<Rightarrow> row" where
  "handle_updated_at w r = AList.update ''updated_at'' (VTime (now w)) r"

text \<open>
  Reading a value as a value of a column's type. A \<open>uuid\<close> is 32 hexadecimal digits,
  in either case, optionally in braces and optionally with a hyphen after any group of
  four digits; it is stored in the canonical form 8-4-4-4-12 in lower case. A \<open>date\<close>
  must be a day of the calendar.
\<close>

definition hex_digit :: "char \<Rightarrow> bool" where
  "hex_digit c = (c \<in> set ''0123456789abcdefABCDEF'')"

definition lower_hex :: "char \<Rightarrow> char" where
  "lower_hex c = (case map_of (zip ''ABCDEF'' ''abcdef'') c of Some l \<Rightarrow> l | None \<Rightarrow> c)"

fun uuid_digits :: "nat \<Rightarrow> string \<Rightarrow> string option" where
  \<comment> \<open>the first argument counts the bytes still to be read\<close>
  "uuid_digits 0 s = (if s = [] then Some [] else None)"
| "uuid_digits (Suc n) (a # b # rest) =
     (if hex_digit a \<and> hex_digit b then
        map_option (\<lambda>ds. lower_hex a # lower_hex b # ds)
          (uuid_digits n
             (case rest of
                [] \<Rightarrow> []
              | c # r \<Rightarrow> if c = CHR ''-'' \<and> even n \<and> 0 < n then r else rest))
      else None)"
| "uuid_digits (Suc n) s = None"

definition uuid_canonical :: "string \<Rightarrow> string" where
  "uuid_canonical ds =
     take 8 ds @ ''-'' @ take 4 (drop 8 ds) @ ''-'' @ take 4 (drop 12 ds) @ ''-''
       @ take 4 (drop 16 ds) @ ''-'' @ drop 20 ds"

definition uuid_in :: "string \<Rightarrow> string option" where
  "uuid_in s =
     (case s of
        [] \<Rightarrow> None
      | c # r \<Rightarrow>
          if c = CHR ''{'' then
            (if r \<noteq> [] \<and> last r = CHR ''}''
             then map_option uuid_canonical (uuid_digits 16 (butlast r)) else None)
          else map_option uuid_canonical (uuid_digits 16 s))"

definition valid_date :: "date \<Rightarrow> bool" where
  "valid_date ymd =
     (case ymd of (y, m, d) \<Rightarrow>
        1 \<le> y \<and> y \<le> 5874897 \<and> 1 \<le> m \<and> m \<le> 12 \<and> 1 \<le> d \<and> d \<le> days_in_month y (m - 1))"

fun type_in :: "coltype option \<Rightarrow> string \<Rightarrow> val \<Rightarrow> db_error + val" where
  "type_in None c v = Inr v"
| "type_in (Some ty) c VNull = Inr VNull"
| "type_in (Some (TNumeric p s)) c (VNum x) = Inr (VNum x)"
| "type_in (Some TUuid) c (VText x) =
     (case uuid_in x of None \<Rightarrow> Inl (InvalidInput c) | Some u \<Rightarrow> Inr (VText u))"
| "type_in (Some TText) c (VText x) = Inr (VText x)"
| "type_in (Some TDate) c (VDate x) = (if valid_date x then Inr (VDate x) else Inl (InvalidInput c))"
| "type_in (Some TTimestamptz) c (VTime x) = Inr (VTime x)"
| "type_in (Some ty) c v = Inl (InvalidInput c)"

text \<open>Storing a value in a column: after it is read, \<open>numeric(p,s)\<close> rounds it half away
  from zero to \<open>s\<close> decimals and rejects what then needs more than \<open>p\<close> digits.\<close>

definition numeric_round :: "nat \<Rightarrow> nat \<Rightarrow> rat \<Rightarrow> rat option" where
  "numeric_round p s x =
     (let units = \<lfloor>\<bar>x\<bar> * 10 ^ s + 1 / 2\<rfloor>
      in if units \<ge> 10 ^ p then None else Some (sgn x * of_int units / 10 ^ s))"

definition coerce :: "coltype option \<Rightarrow> string \<Rightarrow> val \<Rightarrow> db_error + val" where
  "coerce ty c v =
     (case type_in ty c v of
        Inl e \<Rightarrow> Inl e
      | Inr v' \<Rightarrow>
          (case (ty, v') of
             (Some (TNumeric p s), VNum x) \<Rightarrow>
               (case numeric_round p s x of
                  None \<Rightarrow> Inl (NumericOverflow c)
                | Some y \<Rightarrow> Inr (VNum y))
           | _ \<Rightarrow> Inr v'))"

definition stored_as :: "string \<Rightarrow> string \<Rightarrow> val \<Rightarrow> val option" where
  \<comment> \<open>the value of column \<open>c\<close> of table \<open>t\<close> that \<open>v\<close> is read as, if it is one\<close>
  "stored_as t c v = (case type_in (column_type t c) c v of Inl e \<Rightarrow> None | Inr v' \<Rightarrow> Some v')"

fun coerce_row :: "string \<Rightarrow> row \<Rightarrow> db_error + row" where
  "coerce_row t [] = Inr []"
| "coerce_row t ((c, v) # r) =
     (case coerce (column_type t c) c v of
        Inl e \<Rightarrow> Inl e
      | Inr v' \<Rightarrow> (case coerce_row t r of Inl e \<Rightarrow> Inl e | Inr r' \<Rightarrow> Inr ((c, v') # r')))"

definition check_constraints :: "string \<Rightarrow> row \<Rightarrow> violated option" where
  \<comment> \<open>\<open>NOT NULL\<close> first, then \<open>CHECK (budget_limit > 0)\<close> of \<open>budgets\<close>\<close>
  "check_constraints t r =
     (case filter (\<lambda>c. field r c = VNull) (not_null_columns t) of
        c # _ \<Rightarrow> Some (NotNull c)
      | [] \<Rightarrow>
          (if t = ''budgets'' then
             (case field r ''budget_limit'' of
                VNum x \<Rightarrow> if x > 0 then None else Some (CheckConstraint ''budget_limit > 0'')
              | _ \<Rightarrow> None)
           else None))"

text \<open>Filters, ordering and projection.\<close>

fun val_gte :: "val \<Rightarrow> val \<Rightarrow> bool" where
  "val_gte (VNum a) (VNum b) = (b \<le> a)"
| "val_gte (VDate a) (VDate b) = (b \<le> a)"
| "val_gte (VTime a) (VTime b) = (b \<le> a)"
| "val_gte (VText a) (VText b) = (b \<le> a)"
| "val_gte a b = False"

fun holds :: "filter \<Rightarrow> row \<Rightarrow> bool" where
  "holds (Eq c v) r = (field r c \<noteq> VNull \<and> field r c = v)"
| "holds (Gte c v) r = val_gte (field r c) v"

fun filter_column :: "filter \<Rightarrow> string" where
  "filter_column (Eq c v) = c"
| "filter_column (Gte c v) = c"

definition matches :: "filter list \<Rightarrow> row \<Rightarrow> bool" where
  "matches fs r = list_all (\<lambda>f. holds f r) fs"

text \<open>The value of a filter is read as a value of the type of its column.\<close>

fun typed_filter :: "string \<Rightarrow> filter \<Rightarrow> db_error + filter" where
  "typed_filter t (Eq c v) =
     (case type_in (column_type t c) c v of Inl e \<Rightarrow> Inl e | Inr v' \<Rightarrow> Inr (Eq c v'))"
| "typed_filter t (Gte c v) =
     (case type_in (column_type t c) c v of Inl e \<Rightarrow> Inl e | Inr v' \<Rightarrow> Inr (Gte c v'))"

fun typed_filters :: "string \<Rightarrow> filter list \<Rightarrow> db_error + filter list" where
  "typed_filters t [] = Inr []"
| "typed_filters t (f # fs) =
     (case typed_filter t f of
        Inl e \<Rightarrow> Inl e
      | Inr f' \<Rightarrow> (case typed_filters t fs of Inl e \<Rightarrow> Inl e | Inr fs' \<Rightarrow> Inr (f' # fs')))"

fun order_key :: "val \<Rightarrow> nat \<times> (rat \<times> nat \<times> nat) \<times> string" where
  "order_key VNull = (1, (0, 0, 0), [])"
| "order_key (VText s) = (0, (0, 0, 0), s)"
| "order_key (VNum x) = (0, (x, 0, 0), [])"
| "order_key (VDate (y, m, d)) = (0, (of_int y, m, d), [])"
| "order_key (VTime t) = (0, (of_nat t, 0, 0), [])"

definition ordered :: "(string \<times> bool) option \<Rightarrow> row list \<Rightarrow> row list" where
  \<comment> \<open>\<open>ORDER BY c\<close>; descending order puts the greatest key first, nulls before all\<close>
  "ordered ob rows =
     (case ob of
        None \<Rightarrow> rows
      | Some (c, ascending) \<Rightarrow>
          if ascending then sort_key (\<lambda>r. order_key (field r c)) rows
          else rev (sort_key (\<lambda>r. order_key (field r c)) rows))"

fun split_at :: "char \<Rightarrow> string \<Rightarrow> string list" where
  "split_at c [] = [[]]"
| "split_at c (x # xs) =
     (if x = c then [] # split_at c xs
      else (case split_at c xs of [] \<Rightarrow> [[x]] | w # ws \<Rightarrow> (x # w) # ws))"

definition parse_columns :: "string \<Rightarrow> string list option" where
  \<comment> \<open>\<open>None\<close> stands for \<open>*\<close>; blanks are dropped before the list is split\<close>
  "parse_columns s =
     (if s = ''*'' then None else Some (split_at comma (filter (\<lambda>c. c \<noteq> CHR '' '') s)))"

definition project :: "string list option \<Rightarrow> row \<Rightarrow> row" where
  "project cs r = (case cs of None \<Rightarrow> r | Some names \<Rightarrow> map (\<lambda>c. (c, field r c)) names)"

text \<open>Column defaults.\<close>

definition budgets_default :: "world \<Rightarrow> string \<Rightarrow> val" where
  \<comment> \<open>\<open>id ... DEFAULT gen_random_uuid()\<close>, \<open>created_at\<close> and \<open>updated_at ... DEFAULT now()\<close>\<close>
  "budgets_default w c =
     (if c = ''id'' then VText (uuids w (issued w))
      else if c = ''created_at'' \<or> c = ''updated_at'' then VTime (now w)
      else VNull)"

text \<open>
  Modelled from the spec: the column defaults of the tables whose migrations are not
  among the sources. Identifiers are server-generated, and \<open>created_at\<close> and
  \<open>updated_at\<close> are server-managed.
\<close>

definition server_default :: "world \<Rightarrow> string \<Rightarrow> val" where
  "server_default w c =
     (if c = ''id'' then VText (uuids w (issued w))
      else if c = ''created_at'' \<or> c = ''updated_at'' then VTime (now w)
      else VNull)"

definition with_defaults :: "world \<Rightarrow> string \<Rightarrow> string list \<Rightarrow> row \<Rightarrow> row" where
  "with_defaults w t cols r =
     map (\<lambda>c. (c, case map_of r c of
                    Some v \<Rightarrow> v
                  | None \<Rightarrow> if t = ''budgets'' then budgets_default w c else server_default w c)) cols"

text \<open>One row of an \<open>INSERT\<close>: defaults, the policy's \<open>WITH CHECK\<close>, the constraints,
  the primary key. (The reference of \<open>user_id\<close> to the users table needs no case of its
  own: a row that passes the policy names the authenticated user.)\<close>

definition insert_one :: "string \<Rightarrow> string list \<Rightarrow> world \<Rightarrow> row \<Rightarrow> db_error + (row \<times> world)" where
  "insert_one t cols w r =
     (case filter (\<lambda>c. c \<notin> set cols) (map fst r) of
        c # _ \<Rightarrow> Inl (UndefinedColumn c)
      | [] \<Rightarrow>
         (case coerce_row t r of
            Inl e \<Rightarrow> Inl e
          | Inr r1 \<Rightarrow>
              (let r2 = with_defaults w t cols r1 in
               if \<not> visible w t r2 then Inl AuthorizationFailure
               else case check_constraints t r2 of
                      Some v \<Rightarrow> Inl (ConstraintViolation v)
                    | None \<Rightarrow>
                        if field r2 ''id'' \<in> set (map (\<lambda>x. field x ''id'') (tables w t))
                        then Inl (ConstraintViolation PrimaryKey)
                        else Inr (r2, w\<lparr>tables := (tables w)(t := tables w t @ [r2]),
                                        issued := Suc (issued w)\<rparr>))))"

fun insert_all :: "string \<Rightarrow> string list \<Rightarrow> world \<Rightarrow> row list \<Rightarrow> db_error + (row list \<times> world)" where
  "insert_all t cols w [] = Inr ([], w)"
| "insert_all t cols w (r # rs) =
     (case insert_one t cols w r of
        Inl e \<Rightarrow> Inl e
      | Inr (r', w') \<Rightarrow>
          (case insert_all t cols w' rs of
             Inl e \<Rightarrow> Inl e
           | Inr (rs', w'') \<Rightarrow> Inr (r' # rs', w'')))"

text \<open>One row of an \<open>UPDATE\<close>: the new values, then the trigger; the policy's \<open>USING\<close>
  expression is also the check on the new row, then the constraints.\<close>

definition updated :: "world \<Rightarrow> row \<Rightarrow> row \<Rightarrow> row" where
  "updated w vals r = handle_updated_at w (AList.merge r vals)"

definition update_error :: "world \<Rightarrow> string \<Rightarrow> row \<Rightarrow> db_error option" where
  "update_error w t r' =
     (if \<not> visible w t r' then Some AuthorizationFailure
      else map_option ConstraintViolation (check_constraints t r'))"

definition first_error :: "db_error option list \<Rightarrow> db_error option" where
  "first_error es = (case filter (\<lambda>e. e \<noteq> None) es of [] \<Rightarrow> None | e # _ \<Rightarrow> e)"

text \<open>The answer to a request whose statement ran: \<open>single()\<close> demands exactly one row,
  and otherwise fails with nothing written.\<close>

definition respond ::
  "request \<Rightarrow> string list option option \<Rightarrow> row list \<Rightarrow> world \<Rightarrow> world \<Rightarrow> db_error response \<times> world" where
  "respond q proj rows w_before w_after =
     (if single q \<and> length rows \<noteq> 1 then (\<lparr>data = NoData, error = Some NotSingular\<rparr>, w_before)
      else
        (\<lparr>data = (case proj of
                    None \<Rightarrow> NoData
                  | Some cs \<Rightarrow>
                      (case (single q, rows) of
                         (True, r # _) \<Rightarrow> OneRow (project cs r)
                       | _ \<Rightarrow> ManyRows (map (project cs) rows))),
          error = None\<rparr>, w_after))"

definition failed :: "db_error \<Rightarrow> world \<Rightarrow> db_error response \<times> world" where
  "failed e w = (\<lparr>data = NoData, error = Some e\<rparr>, w)"

definition undefined_columns :: "string list \<Rightarrow> request \<Rightarrow> string list" where
  "undefined_columns cols q =
     filter (\<lambda>c. c \<notin> set cols)
       (map filter_column (filters q)
        @ (case order_by q of None \<Rightarrow> [] | Some (c, _) \<Rightarrow> [c])
        @ (case verb q of SELECT s \<Rightarrow> (case parse_columns s of None \<Rightarrow> [] | Some cs \<Rightarrow> cs) | _ \<Rightarrow> [])
        @ (case returning q of None \<Rightarrow> [] | Some s \<Rightarrow> (case parse_columns s of None \<Rightarrow> [] | Some cs \<Rightarrow> cs))
        @ (case verb q of UPDATE vals \<Rightarrow> map fst vals | _ \<Rightarrow> []))"

text \<open>One statement, run under the caller's identity at the clock's current reading.\<close>

definition statement :: "(request, db_error response, world) backend" where
  "statement q w =
     (case table_columns (tbl q) of
        None \<Rightarrow> failed (UndefinedTable (tbl q)) w
      | Some cols \<Rightarrow>
         (case undefined_columns cols q of
            c # _ \<Rightarrow> failed (UndefinedColumn c) w
          | [] \<Rightarrow>
             (case typed_filters (tbl q) (filters q) of
                Inl e \<Rightarrow> failed e w
              | Inr fs \<Rightarrow>
             (let t = tbl q;
                  target = (\<lambda>r. visible w t r \<and> matches fs r);
                  ret = map_option parse_columns (returning q)
              in case verb q of
                   SELECT s \<Rightarrow>
                     respond q (Some (parse_columns s))
                       (ordered (order_by q) (filter target (tables w t))) w w
                 | INSERT rows \<Rightarrow>
                     (case insert_all t cols w rows of
                        Inl e \<Rightarrow> failed e w
                      | Inr (rows', w') \<Rightarrow> respond q ret rows' w w')
                 | UPDATE vals \<Rightarrow>
                     (if vals = [] then respond q ret [] w w
                      else case coerce_row t vals of
                        Inl e \<Rightarrow> failed e w
                      | Inr vals' \<Rightarrow>
                          (let rows' = map (updated w vals') (filter target (tables w t));
                               table' = map (\<lambda>r. if target r then updated w vals' r else r) (tables w t)
                           in case first_error (map (update_error w t) rows') of
                                Some e \<Rightarrow> failed e w
                              | None \<Rightarrow>
                                  if ''id'' \<in> set (map fst vals') \<and> rows' \<noteq> []
                                     \<and> \<not> distinct (map (\<lambda>x. field x ''id'') table')
                                  then failed (ConstraintViolation PrimaryKey) w
                                  else respond q ret rows' w (w\<lparr>tables := (tables w)(t := table')\<rparr>)))
                 | DELETE \<Rightarrow>
                     respond q ret (filter target (tables w t)) w
                       (w\<lparr>tables := (tables w)(t := filter (\<lambda>r. \<not> target r) (tables w t))\<rparr>)))))"

text \<open>
  Every request of the client is a transaction of its own: its statement sees the clock
  reading at which it starts, and the next request starts at a later reading, whether
  the statement succeeded or not. Clock readings are counted, one per request.
\<close>

definition tick :: "world \<Rightarrow> world" where
  "tick w = w\<lparr>now := Suc (now w)\<rparr>"

definition postgrest :: "(request, db_error response, world) backend" where
  "postgrest q w = (case statement q w of (r, w') \<Rightarrow> (r, tick w'))"

section \<open>Calls of the layer, taken together\<close>

text \<open>
  To speak of every call of the layer at once: a call is one of the exported functions
  with its arguments, and what the caller observes of it is the list of rows it is
  handed back.
\<close>

fun rows_of :: "data \<Rightarrow> row list" where
  "rows_of NoData = []"
| "rows_of (OneRow r) = [r]"
| "rows_of (ManyRows rs) = rs"

primrec map_prog :: "('a \<Rightarrow> 'b) \<Rightarrow> ('q, 'r, 'a) prog \<Rightarrow> ('q, 'r, 'b) prog" where
  "map_prog f (Return x) = Return (f x)"
| "map_prog f (Await q k) = Await q (\<lambda>r. map_prog f (k r))"

datatype facade_call =
    CallGetUserProfile string
  | CallUpdateUserProfile string row
  | CallGetIncome string
  | CallAddIncome row
  | CallUpdateIncome string row
  | CallDeleteIncome string
  | CallGetExpenses string
  | CallAddExpense row
  | CallUpdateExpense string row
  | CallDeleteExpense string
  | CallGetInvestments string
  | CallAddInvestment row
  | CallUpdateInvestment string row
  | CallDeleteInvestment string
  | CallGetSavingsGoals string
  | CallAddSavingsGoal row
  | CallUpdateSavingsGoal string row
  | CallDeleteSavingsGoal string
  | CallGetBudgets string
  | CallAddBudget row
  | CallUpdateBudget string row
  | CallDeleteBudget string
  | CallGetMonthlyData "jsdate \<Rightarrow> int" jsdate string
  | CallGetExpensesByCategory string

fun invoke :: "facade_call \<Rightarrow> (request, 'e response, row list) prog" where
  "invoke (CallGetUserProfile u) = map_prog (\<lambda>(d, e). rows_of d) (getUserProfile u)"
| "invoke (CallUpdateUserProfile u p) = map_prog (\<lambda>(d, e). rows_of d) (updateUserProfile u p)"
| "invoke (CallGetIncome u) = map_prog (\<lambda>(d, e). rows_of d) (getIncome u)"
| "invoke (CallAddIncome r) = map_prog (\<lambda>(d, e). rows_of d) (addIncome r)"
| "invoke (CallUpdateIncome i p) = map_prog (\<lambda>(d, e). rows_of d) (updateIncome i p)"
| "invoke (CallDeleteIncome i) = map_prog (\<lambda>e. []) (deleteIncome i)"
| "invoke (CallGetExpenses u) = map_prog (\<lambda>(d, e). rows_of d) (getExpenses u)"
| "invoke (CallAddExpense r) = map_prog (\<lambda>(d, e). rows_of d) (addExpense r)"
| "invoke (CallUpdateExpense i p) = map_prog (\<lambda>(d, e). rows_of d) (updateExpense i p)"
| "invoke (CallDeleteExpense i) = map_prog (\<lambda>e. []) (deleteExpense i)"
| "invoke (CallGetInvestments u) = map_prog (\<lambda>(d, e). rows_of d) (getInvestments u)"
| "invoke (CallAddInvestment r) = map_prog (\<lambda>(d, e). rows_of d) (addInvestment r)"
| "invoke (CallUpdateInvestment i p) = map_prog (\<lambda>(d, e). rows_of d) (updateInvestment i p)"
| "invoke (CallDeleteInvestment i) = map_prog (\<lambda>e. []) (deleteInvestment i)"
| "invoke (CallGetSavingsGoals u) = map_prog (\<lambda>(d, e). rows_of d) (getSavingsGoals u)"
| "invoke (CallAddSavingsGoal r) = map_prog (\<lambda>(d, e). rows_of d) (addSavingsGoal r)"
| "invoke (CallUpdateSavingsGoal i p) = map_prog (\<lambda>(d, e). rows_of d) (updateSavingsGoal i p)"
| "invoke (CallDeleteSavingsGoal i) = map_prog (\<lambda>e. []) (deleteSavingsGoal i)"
| "invoke (CallGetBudgets u) = map_prog (\<lambda>(d, e). rows_of d) (getBudgets u)"
| "invoke (CallAddBudget r) = map_prog (\<lambda>(d, e). rows_of d) (addBudget r)"
| "invoke (CallUpdateBudget i p) = map_prog (\<lambda>(d, e). rows_of d) (updateBudget i p)"
| "invoke (CallDeleteBudget i) = map_prog (\<lambda>e. []) (deleteBudget i)"
| "invoke (CallGetMonthlyData tza today u) =
     map_prog (\<lambda>m. rows_of (incomeData m) @ rows_of (expenseData m)) (getMonthlyData tza today u)"
| "invoke (CallGetExpensesByCategory u) = map_prog (\<lambda>(d, e). rows_of d) (getExpensesByCategory u)"

text \<open>
  A call is within the caller's reach when it names the caller as the user, when the
  record it creates names the caller as owner, or when the identifier it passes is that
  of a record the caller owns. A name or identifier is taken as the backend reads it:
  for the \<open>uuid\<close> columns of \<open>budgets\<close> in any accepted spelling, elsewhere literally.
\<close>

definition names_user :: "string \<Rightarrow> string \<Rightarrow> string \<Rightarrow> bool" where
  "names_user t u A = (stored_as t (owner_column t) (VText u) = Some (VText A))"

definition creates_for :: "string \<Rightarrow> row \<Rightarrow> string \<Rightarrow> bool" where
  "creates_for t r A = (stored_as t ''user_id'' (field r ''user_id'') = Some (VText A))"

definition owns_id :: "string \<Rightarrow> world \<Rightarrow> string \<Rightarrow> string \<Rightarrow> bool" where
  "owns_id A w t i =
     list_ex (\<lambda>r. owned t A r \<and> field r ''id'' \<noteq> VNull
                   \<and> stored_as t ''id'' (VText i) = Some (field r ''id'')) (tables w t)"

fun within_reach :: "string \<Rightarrow> world \<Rightarrow> facade_call \<Rightarrow> bool" where
  "within_reach A w (CallGetUserProfile u) = names_user ''user_profiles'' u A"
| "within_reach A w (CallUpdateUserProfile u p) = names_user ''user_profiles'' u A"
| "within_reach A w (CallGetIncome u) = names_user ''income'' u A"
| "within_reach A w (CallAddIncome r) = creates_for ''income'' r A"
| "within_reach A w (CallUpdateIncome i p) = owns_id A w ''income'' i"
| "within_reach A w (CallDeleteIncome i) = owns_id A w ''income'' i"
| "within_reach A w (CallGetExpenses u) = names_user ''expenses'' u A"
| "within_reach A w (CallAddExpense r) = creates_for ''expenses'' r A"
| "within_reach A w (CallUpdateExpense i p) = owns_id A w ''expenses'' i"
| "within_reach A w (CallDeleteExpense i) = owns_id A w ''expenses'' i"
| "within_reach A w (CallGetInvestments u) = names_user ''investments'' u A"
| "within_reach A w (CallAddInvestment r) = creates_for ''investments'' r A"
| "within_reach A w (CallUpdateInvestment i p) = owns_id A w ''investments'' i"
| "within_reach A w (CallDeleteInvestment i) = owns_id A w ''investments'' i"
| "within_reach A w (CallGetSavingsGoals u) = names_user ''savings'' u A"
| "within_reach A w (CallAddSavingsGoal r) = creates_for ''savings'' r A"
| "within_reach A w (CallUpdateSavingsGoal i p) = owns_id A w ''savings'' i"
| "within_reach A w (CallDeleteSavingsGoal i) = owns_id A w ''savings'' i"
| "within_reach A w (CallGetBudgets u) = names_user ''budgets'' u A"
| "within_reach A w (CallAddBudget r) = creates_for ''budgets'' r A"
| "within_reach A w (CallUpdateBudget i p) = owns_id A w ''budgets'' i"
| "within_reach A w (CallDeleteBudget i) = owns_id A w ''budgets'' i"
| "within_reach A w (CallGetMonthlyData tza today u) = (names_user ''income'' u A \<and> names_user ''expenses'' u A)"
| "within_reach A w (CallGetExpensesByCategory u) = names_user ''expenses'' u A"

text \<open>A world in which no row owned by \<open>B\<close> has changed.\<close>

definition untouched :: "string \<Rightarrow> world \<Rightarrow> world \<Rightarrow> bool" where
  "untouched B w w' = (uid w' = uid w
      \<and> (\<forall>t. filter (owned t B) (tables w' t) = filter (owned t B) (tables w t)))"

text \<open>No row of the table is both visible to the caller and selected by the filters.\<close>

definition no_target :: "world \<Rightarrow> string \<Rightarrow> filter list \<Rightarrow> bool" where
  "no_target w t fs = (\<forall>r \<in> set (tables w t). \<not> (visible w t r \<and> matches fs r))"


text \<open>A small database for the worked instances: two users, three income records.\<close>

definition income_row :: "string \<Rightarrow> string \<Rightarrow> rat \<Rightarrow> date \<Rightarrow> nat \<Rightarrow> row" where
  "income_row i u a d t =
     [(''id'', VText i), (''user_id'', VText u), (''amount'', VNum a), (''source'', VText ''job''),
      (''date'', VDate d), (''category'', VText ''salary''), (''notes'', VText []),
      (''created_at'', VTime t), (''updated_at'', VTime t)]"

definition example_world :: world where
  "example_world =
     \<lparr>tables = (\<lambda>t. if t = ''income'' then
                  [income_row ''i1'' ''u1'' 5 (2025, 3, 1) 10,
                   income_row ''i2'' ''u2'' 7 (2025, 4, 1) 11,
                   income_row ''i3'' ''u1'' 9 (2025, 5, 1) 12]
                else []),
      uid = Some ''u1'', now = 100, uuids = (\<lambda>n. ''fresh''), issued = 0\<rparr>"

text \<open>The same user with an income record dated years ahead.\<close>

definition future_world :: world where
  "future_world =
     example_world\<lparr>tables := (\<lambda>t. if t = ''income'' then
                  [income_row ''i1'' ''u1'' 5 (2025, 3, 1) 10,
                   income_row ''i4'' ''u1'' 8 (2031, 1, 1) 13]
                else [])\<rparr>"

text \<open>A database with budgets of two users; the first of them is the caller.\<close>

definition user_a :: string where
  "user_a = ''11111111-1111-1111-1111-111111111111''"

definition user_b :: string where
  "user_b = ''22222222-2222-2222-2222-222222222222''"

definition budget_row :: "string \<Rightarrow> string \<Rightarrow> rat \<Rightarrow> nat \<Rightarrow> row" where
  "budget_row i u x t =
     [(''id'', VText i), (''user_id'', VText u), (''category'', VText ''food''),
      (''budget_limit'', VNum x), (''start_date'', VDate (2025, 1, 1)),
      (''created_at'', VTime t), (''updated_at'', VTime t)]"

definition budgets_world :: world where
  "budgets_world =
     \<lparr>tables = (\<lambda>t. if t = ''budgets'' then
                  [budget_row ''aaaaaaaa-0000-0000-0000-000000000001'' user_a 100 10,
                   budget_row ''bbbbbbbb-0000-0000-0000-000000000002'' user_b 200 11]
                else []),
      uid = Some user_a, now = 100,
      uuids = (\<lambda>n. ''cccccccc-0000-0000-0000-000000000003''), issued = 0\<rparr>"

text \<open>Time zones for the worked instances: UTC, and five and a half hours ahead of it.\<close>

definition utc :: "jsdate \<Rightarrow> int" where
  "utc d = 0"

definition ahead_5h30 :: "jsdate \<Rightarrow> int" where
  "ahead_5h30 d = 19800000"

section \<open>Properties of the export utility\<close>

lemma get_property_own:
  "map_of row k = Some v \<Longrightarrow> get_property proto row k = v"
  by (simp add: get_property_def)

lemma get_property_missing:
  "k \<notin> set (object_keys row) \<Longrightarrow>
     get_property proto row k = (case map_of proto k of Some v \<Rightarrow> v | None \<Rightarrow> JUndefined)"
  by (simp add: get_property_def object_keys_def map_of_eq_None_iff [THEN iffD2])

lemma csv_row_cong:
  "(\<forall>h \<in> set headers. get_property proto r1 h = get_property proto r2 h)
     \<Longrightarrow> csv_row proto headers r1 = csv_row proto headers r2"
  by (simp add: csv_row_def)

text \<open>
  Claim C9. For every file name, \<open>exportToCSV\<close> on the empty list does nothing: no blob
  is built, no element made, no download triggered, and the call returns normally.
\<close>

theorem exportToCSV_empty_no_action:
  "exportToCSV numstr proto [] filename = []
   \<and> downloaded (exportToCSV numstr proto [] filename) = None"
  by (simp add: exportToCSV_def)



text \<open>
  Claim C10, as amended. For a non-empty list the header line is the first record's field
  names in that record's key order, and every record gives one cell per such name, in
  the same order. A field that only a later record has does not reach the output. For a
  field of the first record that a later record lacks as a property of its own, the cell
  holds what the record inherits under that name, and is empty only when it inherits
  nothing: a plain object inherits the properties of \<open>Object.prototype\<close>, so for a name
  such as \<open>constructor\<close> or \<open>toString\<close> the cell holds the text of a built-in function.
\<close>

theorem exportToCSV_columns_from_first_record:
  assumes "records = first # rest" and "row \<in> set records"
    and "i < length (object_keys first)" and "k \<notin> set (object_keys first)"
  shows "downloaded (exportToCSV numstr proto records filename)
           = Some (filename, join [newline] (join [comma] (object_keys first)
                # map (\<lambda>r. join_values numstr [comma] (csv_row proto (object_keys first) r)) records))
       \<and> length (csv_row proto (object_keys first) row) = length (object_keys first)
       \<and> csv_row proto (object_keys first) row ! i
           = csv_cell (get_property proto row (object_keys first ! i))
       \<and> exportToCSV numstr proto (first # pre @ (later @ [(k, v)]) # post) filename
             = exportToCSV numstr proto (first # pre @ later # post) filename
       \<and> (object_keys first ! i \<notin> set (object_keys row) \<longrightarrow>
             join_element numstr (csv_row proto (object_keys first) row ! i)
               = (case map_of proto (object_keys first ! i) of
                    None \<Rightarrow> []
                  | Some inherited \<Rightarrow> join_element numstr (csv_cell inherited)))"
proof -
  have dl: "downloaded (exportToCSV numstr proto records filename)
           = Some (filename, join [newline] (join [comma] (object_keys first)
                # map (\<lambda>r. join_values numstr [comma] (csv_row proto (object_keys first) r)) records))"
    using assms(1) by (simp add: exportToCSV_def csvContent_def csv_lines_def Let_def)
  have len: "length (csv_row proto (object_keys first) row) = length (object_keys first)"
    by (simp add: csv_row_def)
  have cell: "csv_row proto (object_keys first) row ! i
                = csv_cell (get_property proto row (object_keys first ! i))"
    using assms(3) by (simp add: csv_row_def)
  have "\<forall>h \<in> set (object_keys first).
          get_property proto (later @ [(k, v)]) h = get_property proto later h"
    using assms(4) by (auto simp: get_property_def map_add_def split: option.splits)
  then have "csv_row proto (object_keys first) (later @ [(k, v)])
               = csv_row proto (object_keys first) later"
    by (rule csv_row_cong)
  then have omitted: "exportToCSV numstr proto (first # pre @ (later @ [(k, v)]) # post) filename
             = exportToCSV numstr proto (first # pre @ later # post) filename"
    by (simp add: exportToCSV_def csvContent_def csv_lines_def Let_def)
  have missing: "object_keys first ! i \<notin> set (object_keys row) \<longrightarrow>
             join_element numstr (csv_row proto (object_keys first) row ! i)
               = (case map_of proto (object_keys first ! i) of
                    None \<Rightarrow> []
                  | Some inherited \<Rightarrow> join_element numstr (csv_cell inherited))"
    using assms(3) by (simp add: csv_row_def get_property_missing split: option.splits)
  from dl len cell omitted missing show ?thesis by blast
qed

theorem exportToCSV_columns_from_first_record_witness:
  "downloaded (exportToCSV (\<lambda>n::nat. ''7'') object_prototype
      [[(''a'', JNumber 7), (''b'', JString ''x'')], [(''c'', JString ''y''), (''b'', JString ''z'')]] ''f.csv'')
     = Some (''f.csv'', ''a,b'' @ [newline] @ ''7,x'' @ [newline] @ '',z'')
   \<and> exportToCSV (\<lambda>n::nat. ''7'') object_prototype
        [[(''a'', JNumber 7), (''b'', JString ''x'')], [(''b'', JString ''z'')] @ [(''c'', JString ''y'')]] ''f.csv''
     = exportToCSV (\<lambda>n::nat. ''7'') object_prototype
        [[(''a'', JNumber 7), (''b'', JString ''x'')], [(''b'', JString ''z'')]] ''f.csv''
   \<and> join_element (\<lambda>n::nat. ''7'')
        (csv_row object_prototype (object_keys [(''a'', JNumber 7), (''b'', JString ''x'')])
           [(''b'', JString ''z'')] ! 0) = []
   \<and> join_element (\<lambda>n::nat. ''7'')
        (csv_row object_prototype (object_keys [(''toString'', JNumber 7)]) [(''b'', JString ''z'')] ! 0)
       = ''function toString() { [native code] }''"
  using exportToCSV_columns_from_first_record
          [of "[[(''a'', JNumber 7), (''b'', JString ''x'')], [(''c'', JString ''y''), (''b'', JString ''z'')]]"
              "[(''a'', JNumber 7), (''b'', JString ''x'')]"
              "[[(''c'', JString ''y''), (''b'', JString ''z'')]]"
              "[(''c'', JString ''y''), (''b'', JString ''z'')]"
              0 "''c''" "\<lambda>n::nat. ''7''" object_prototype "''f.csv''" "[]" "[(''b'', JString ''z'')]"
              "JString ''y''" "[]"]
        exportToCSV_columns_from_first_record
          [of "[[(''a'', JNumber 7), (''b'', JString ''x'')], [(''b'', JString ''z'')]]"
              "[(''a'', JNumber 7), (''b'', JString ''x'')]"
              "[[(''b'', JString ''z'')]]"
              "[(''b'', JString ''z'')]"
              0 "''c''" "\<lambda>n::nat. ''7''" object_prototype "''f.csv''"]
        exportToCSV_columns_from_first_record
          [of "[[(''toString'', JNumber 7)], [(''b'', JString ''z'')]]"
              "[(''toString'', JNumber 7)]"
              "[[(''b'', JString ''z'')]]"
              "[(''b'', JString ''z'')]"
              0 "''c''" "\<lambda>n::nat. ''7''" object_prototype "''f.csv''"]
  by (simp add: csv_row_def join_values_def object_keys_def get_property_def comma_def
      object_prototype_def native_function_def)

text \<open>
  The claim as first stated fails: the second record below has no \<open>constructor\<close> of its
  own, and its row is not empty.
\<close>

theorem exportToCSV_inherited_property_fills_cell:
  "downloaded (exportToCSV (\<lambda>n::nat. ''7'') object_prototype
      [[(''constructor'', JString ''x'')], []] ''f.csv'')
     = Some (''f.csv'', ''constructor'' @ [newline] @ ''x'' @ [newline]
                        @ ''function Object() { [native code] }'')"
  by (simp add: exportToCSV_def csvContent_def csv_lines_def csv_row_def join_values_def
      object_keys_def get_property_def object_prototype_def native_function_def comma_def)

section \<open>Properties of the data access functions, for any backend\<close>

lemma relays_Await:
  "relays b s (Await q (\<lambda>r. Return (data r, error r)))"
  by (auto simp: relays_def split: prod.splits)

lemma relays_error_Await:
  "relays_error b s (Await q (\<lambda>r. Return (error r)))"
  by (auto simp: relays_error_def split: prod.splits)

text \<open>
  Claim C7. Whatever the backend answers, every function of the layer returns: the
  profile, list, create, update and analytics functions return the \<open>data\<close> and the
  \<open>error\<close> of the one response they received, the delete functions and \<open>signOut\<close> its
  \<open>error\<close>, \<open>getCurrentUser\<close> the \<open>user\<close> of its data and its \<open>error\<close>, and
  \<open>getMonthlyData\<close> the \<open>data\<close> and the \<open>error\<close> of each of its two responses. The
  error is the backend's value, unchanged, and no call is made a second time.
\<close>

theorem facade_returns_backend_result_unchanged:
  fixes b :: "(request, 'e response, 's) backend"
    and idp :: "(auth_request, (('u, 'z) auth_data_scheme, 'x) auth_response, 't) backend"
  shows "(relays b s (getUserProfile userId) \<and> relays b s (updateUserProfile userId updates))
       \<and> (relays b s (getIncome userId) \<and> relays b s (addIncome record)
            \<and> relays b s (updateIncome rowId updates) \<and> relays_error b s (deleteIncome rowId))
       \<and> (relays b s (getExpenses userId) \<and> relays b s (addExpense record)
            \<and> relays b s (updateExpense rowId updates) \<and> relays_error b s (deleteExpense rowId))
       \<and> (relays b s (getInvestments userId) \<and> relays b s (addInvestment record)
            \<and> relays b s (updateInvestment rowId updates) \<and> relays_error b s (deleteInvestment rowId))
       \<and> (relays b s (getSavingsGoals userId) \<and> relays b s (addSavingsGoal record)
            \<and> relays b s (updateSavingsGoal rowId updates) \<and> relays_error b s (deleteSavingsGoal rowId))
       \<and> (relays b s (getBudgets userId) \<and> relays b s (addBudget record)
            \<and> relays b s (updateBudget rowId updates) \<and> relays_error b s (deleteBudget rowId))
       \<and> relays b s (getExpensesByCategory userId)
       \<and> (\<exists>q1 q2. trace b (getMonthlyData tza today userId) s
              = [Sent q1, Received q1 (fst (b q1 s)), Sent q2, Received q2 (fst (b q2 (snd (b q1 s))))]
            \<and> fst (run b (getMonthlyData tza today userId) s)
              = \<lparr>incomeData = data (fst (b q1 s)), expenseData = data (fst (b q2 (snd (b q1 s)))),
                 incomeError = error (fst (b q1 s)), expenseError = error (fst (b q2 (snd (b q1 s))))\<rparr>)
       \<and> (\<exists>q. trace idp (signUp origin email password name userType) t = [Sent q, Received q (fst (idp q t))]
            \<and> fst (run idp (signUp origin email password name userType) t)
              = (auth_data (fst (idp q t)), auth_error (fst (idp q t))))
       \<and> (\<exists>q. trace idp (signInWithGoogle origin) t = [Sent q, Received q (fst (idp q t))]
            \<and> fst (run idp (signInWithGoogle origin) t)
              = (auth_data (fst (idp q t)), auth_error (fst (idp q t))))
       \<and> (\<exists>q. trace idp (signIn email password) t = [Sent q, Received q (fst (idp q t))]
            \<and> fst (run idp (signIn email password) t)
              = (auth_data (fst (idp q t)), auth_error (fst (idp q t))))
       \<and> (\<exists>q. trace idp signOut t = [Sent q, Received q (fst (idp q t))]
            \<and> fst (run idp signOut t) = auth_error (fst (idp q t)))
       \<and> (\<exists>q. trace idp getCurrentUser t = [Sent q, Received q (fst (idp q t))]
            \<and> fst (run idp getCurrentUser t)
              = (user (auth_data (fst (idp q t))), auth_error (fst (idp q t))))"
proof -
  have profile: "relays b s (getUserProfile userId) \<and> relays b s (updateUserProfile userId updates)"
    by (simp add: getUserProfile_def updateUserProfile_def relays_Await)
  have income: "relays b s (getIncome userId) \<and> relays b s (addIncome record)
            \<and> relays b s (updateIncome rowId updates) \<and> relays_error b s (deleteIncome rowId)"
    by (simp add: getIncome_def addIncome_def updateIncome_def deleteIncome_def
        relays_Await relays_error_Await)
  have expenses: "relays b s (getExpenses userId) \<and> relays b s (addExpense record)
            \<and> relays b s (updateExpense rowId updates) \<and> relays_error b s (deleteExpense rowId)"
    by (simp add: getExpenses_def addExpense_def updateExpense_def deleteExpense_def
        relays_Await relays_error_Await)
  have investments: "relays b s (getInvestments userId) \<and> relays b s (addInvestment record)
            \<and> relays b s (updateInvestment rowId updates) \<and> relays_error b s (deleteInvestment rowId)"
    by (simp add: getInvestments_def addInvestment_def updateInvestment_def deleteInvestment_def
        relays_Await relays_error_Await)
  have savings: "relays b s (getSavingsGoals userId) \<and> relays b s (addSavingsGoal record)
            \<and> relays b s (updateSavingsGoal rowId updates) \<and> relays_error b s (deleteSavingsGoal rowId)"
    by (simp add: getSavingsGoals_def addSavingsGoal_def updateSavingsGoal_def deleteSavingsGoal_def
        relays_Await relays_error_Await)
  have budgets: "relays b s (getBudgets userId) \<and> relays b s (addBudget record)
            \<and> relays b s (updateBudget rowId updates) \<and> relays_error b s (deleteBudget rowId)"
    by (simp add: getBudgets_def addBudget_def updateBudget_def deleteBudget_def
        relays_Await relays_error_Await)
  have category: "relays b s (getExpensesByCategory userId)"
    by (simp add: getExpensesByCategory_def relays_Await)
  have monthly: "\<exists>q1 q2. trace b (getMonthlyData tza today userId) s
              = [Sent q1, Received q1 (fst (b q1 s)), Sent q2, Received q2 (fst (b q2 (snd (b q1 s))))]
            \<and> fst (run b (getMonthlyData tza today userId) s)
              = \<lparr>incomeData = data (fst (b q1 s)), expenseData = data (fst (b q2 (snd (b q1 s)))),
                 incomeError = error (fst (b q1 s)), expenseError = error (fst (b q2 (snd (b q1 s))))\<rparr>"
    by (auto simp: getMonthlyData_def Let_def split: prod.splits)
  have auth1: "\<exists>q. trace idp (signUp origin email password name userType) t = [Sent q, Received q (fst (idp q t))]
            \<and> fst (run idp (signUp origin email password name userType) t)
              = (auth_data (fst (idp q t)), auth_error (fst (idp q t)))"
    by (auto simp: signUp_def split: prod.splits)
  have auth2: "\<exists>q. trace idp (signInWithGoogle origin) t = [Sent q, Received q (fst (idp q t))]
            \<and> fst (run idp (signInWithGoogle origin) t)
              = (auth_data (fst (idp q t)), auth_error (fst (idp q t)))"
    by (auto simp: signInWithGoogle_def split: prod.splits)
  have auth3: "\<exists>q. trace idp (signIn email password) t = [Sent q, Received q (fst (idp q t))]
            \<and> fst (run idp (signIn email password) t)
              = (auth_data (fst (idp q t)), auth_error (fst (idp q t)))"
    by (auto simp: signIn_def split: prod.splits)
  have auth4: "\<exists>q. trace idp signOut t = [Sent q, Received q (fst (idp q t))]
            \<and> fst (run idp signOut t) = auth_error (fst (idp q t))"
    by (auto simp: signOut_def split: prod.splits)
  have auth5: "\<exists>q. trace idp getCurrentUser t = [Sent q, Received q (fst (idp q t))]
            \<and> fst (run idp getCurrentUser t)
              = (user (auth_data (fst (idp q t))), auth_error (fst (idp q t)))"
    by (auto simp: getCurrentUser_def split: prod.splits)
  from profile income expenses investments savings budgets category monthly
    auth1 auth2 auth3 auth4 auth5
  show ?thesis by blast
qed

section \<open>Properties of the database model\<close>


lemma visible_owned: "uid w = Some A \<Longrightarrow> visible w t r \<Longrightarrow> owned t A r"
  by (auto simp: visible_def budgets_policy_def owner_policy_def owned_def owner_column_def split: if_splits)

lemma owned_visible: "uid w = Some A \<Longrightarrow> owned t A r \<Longrightarrow> visible w t r"
  by (auto simp: visible_def budgets_policy_def owner_policy_def owned_def owner_column_def split: if_splits)

lemma owned_other: "owned t A r \<Longrightarrow> A \<noteq> B \<Longrightarrow> \<not> owned t B r"
  by (simp add: owned_def)

lemma visible_uid_cong: "uid w' = uid w \<Longrightarrow> visible w' t r = visible w t r"
  by (simp add: visible_def)

lemma insert_one_Inr:
  assumes "insert_one t cols w r = Inr (r', w')"
  shows "uid w' = uid w \<and> now w' = now w \<and> visible w t r'
       \<and> tables w' = (tables w)(t := tables w t @ [r'])"
  using assms
  by (auto simp: insert_one_def Let_def split: list.splits sum.splits if_splits option.splits)

lemma insert_all_Inr:
  "insert_all t cols w rs = Inr (rs', w') \<Longrightarrow>
     uid w' = uid w \<and> now w' = now w \<and> (\<forall>r \<in> set rs'. visible w t r)
       \<and> tables w' = (tables w)(t := tables w t @ rs')"
proof (induction rs arbitrary: w rs')
  case Nil
  then show ?case by auto
next
  case (Cons r rs)
  from Cons.prems obtain r1 w1 rs1 where
    one: "insert_one t cols w r = Inr (r1, w1)" and
    rest: "insert_all t cols w1 rs = Inr (rs1, w')" and
    rs': "rs' = r1 # rs1"
    by (auto split: sum.splits prod.splits)
  note p1 = insert_one_Inr [OF one]
  note p2 = Cons.IH [OF rest]
  from p1 p2 rs' show ?case
    by (auto simp: visible_uid_cong [of w1 w])
qed

lemma first_error_None:
  assumes "first_error es = None" and "e \<in> set es"
  shows "e = None"
proof (cases "filter (\<lambda>e. e \<noteq> None) es")
  case Nil
  with assms(2) show ?thesis by (simp add: filter_empty_conv)
next
  case (Cons e0 rest)
  then have "e0 \<in> set (filter (\<lambda>e. e \<noteq> None) es)" by simp
  then have "e0 \<noteq> None" by simp
  moreover from assms(1) Cons have "e0 = None" by (simp add: first_error_def)
  ultimately show ?thesis by simp
qed


lemma snd_failed [simp]: "snd (failed e w) = w"
  by (simp add: failed_def)

lemma snd_respond: "snd (respond q proj rows w w') = w \<or> snd (respond q proj rows w w') = w'"
  by (simp add: respond_def)

lemma filter_map_untouched:
  assumes "\<And>r. r \<in> set xs \<Longrightarrow> tg r \<Longrightarrow> \<not> P r \<and> \<not> P (f r)"
  shows "filter P (map (\<lambda>r. if tg r then f r else r) xs) = filter P xs"
  using assms by (induction xs) auto

lemma filter_filter_untouched:
  assumes "\<And>r. r \<in> set xs \<Longrightarrow> P r \<Longrightarrow> keep r"
  shows "filter P (filter keep xs) = filter P xs"
  using assms by (induction xs) auto

lemma untouched_refl: "untouched B w w"
  by (simp add: untouched_def)

lemma set_ordered [simp]: "set (ordered ob rows) = set rows"
  by (auto simp: ordered_def split: option.splits)

lemma mset_ordered [simp]: "mset (ordered ob rows) = mset rows"
  by (auto simp: ordered_def split: option.splits)

text \<open>Every request either fails, leaving the world as it was, or answers from rows the
  caller owns, leaving every other user's rows as they were.\<close>

lemma statement_outcome:
  assumes A: "uid w = Some A"
  shows "(\<exists>e. statement q w = failed e w)
       \<or> (\<exists>proj rows w'. statement q w = respond q proj rows w w'
            \<and> (\<forall>r \<in> set rows. owned (tbl q) A r
                  \<and> (verb q \<noteq> DELETE \<longrightarrow> r \<in> set (tables w' (tbl q))))
            \<and> (\<forall>B. B \<noteq> A \<longrightarrow> untouched B w w'))"
proof -
  let ?t = "tbl q"
  let ?good = "\<lambda>rows w'. (\<forall>r \<in> set rows. owned ?t A r
                  \<and> (verb q \<noteq> DELETE \<longrightarrow> r \<in> set (tables w' ?t)))
                  \<and> (\<forall>B. B \<noteq> A \<longrightarrow> untouched B w w')"
  have own: "owned t A r" if "visible w t r" for t r
    using visible_owned [OF A that] .
  have notB: "\<not> owned t B r" if "visible w t r" "B \<noteq> A" for t r B
    using own [OF that(1)] that(2) by (auto simp: owned_def)
  show ?thesis
  proof (cases "table_columns ?t")
    case None
    then have "statement q w = failed (UndefinedTable ?t) w" by (simp add: statement_def)
    then show ?thesis by blast
  next
    case cols: (Some cols)
    show ?thesis
    proof (cases "undefined_columns cols q")
      case (Cons c cs)
      with cols have "statement q w = failed (UndefinedColumn c) w" by (simp add: statement_def)
      then show ?thesis by blast
    next
      case Nil
      show ?thesis
      proof (cases "typed_filters ?t (filters q)")
        case (Inl e)
        with cols Nil have "statement q w = failed e w" by (simp add: statement_def)
        then show ?thesis by blast
      next
        case fs: (Inr fs)
        let ?target = "\<lambda>r. visible w ?t r \<and> matches fs r"
      show ?thesis
      proof (cases "verb q")
        case (SELECT s)
        have "?good (ordered (order_by q) (filter ?target (tables w ?t))) w"
          by (auto simp: own untouched_refl)
        moreover from cols Nil fs SELECT
        have "statement q w = respond q (Some (parse_columns s))
                (ordered (order_by q) (filter ?target (tables w ?t))) w w"
          by (simp add: statement_def Let_def)
        ultimately show ?thesis by blast
      next
        case (INSERT rows)
        show ?thesis
        proof (cases "insert_all ?t cols w rows")
          case (Inl e)
          with cols Nil fs INSERT have "statement q w = failed e w" by (simp add: statement_def Let_def)
          then show ?thesis by blast
        next
          case (Inr res)
          obtain rows' w' where res: "res = (rows', w')" by (cases res)
          from insert_all_Inr [OF Inr [unfolded res]]
          have "?good rows' w'"
            by (auto simp: untouched_def notB own)
          moreover from cols Nil fs INSERT Inr res
          have "statement q w = respond q (map_option parse_columns (returning q)) rows' w w'"
            by (simp add: statement_def Let_def)
          ultimately show ?thesis by blast
        qed
      next
        case (UPDATE vals)
        show ?thesis
        proof (cases "vals = []")
          case True
          have "?good [] w" by (simp add: untouched_refl)
          moreover from cols Nil fs UPDATE True
          have "statement q w = respond q (map_option parse_columns (returning q)) [] w w"
            by (simp add: statement_def Let_def)
          ultimately show ?thesis by blast
        next
          case False
          show ?thesis
          proof (cases "coerce_row ?t vals")
            case (Inl e)
            with cols Nil fs UPDATE False have "statement q w = failed e w"
              by (simp add: statement_def Let_def)
            then show ?thesis by blast
          next
            case (Inr vals')
            let ?rows' = "map (updated w vals') (filter ?target (tables w ?t))"
            let ?table' = "map (\<lambda>r. if ?target r then updated w vals' r else r) (tables w ?t)"
            show ?thesis
            proof (cases "first_error (map (update_error w ?t) ?rows')")
              case (Some e)
              with cols Nil fs UPDATE False Inr have "statement q w = failed e w"
                by (simp add: statement_def Let_def)
              then show ?thesis by blast
            next
              case None
              have ok: "visible w ?t (updated w vals' r)" if "r \<in> set (tables w ?t)" "?target r" for r
              proof -
                have "update_error w ?t (updated w vals' r) \<in> set (map (update_error w ?t) ?rows')"
                  using that by auto
                then have "update_error w ?t (updated w vals' r) = None"
                  by (rule first_error_None [OF None])
                then show ?thesis by (simp add: update_error_def split: if_splits)
              qed
              have "filter (owned ?t B) ?table' = filter (owned ?t B) (tables w ?t)" if "B \<noteq> A" for B
                by (rule filter_map_untouched) (use ok notB that in blast)
              then have unt: "\<forall>B. B \<noteq> A \<longrightarrow> untouched B w (w\<lparr>tables := (tables w)(?t := ?table')\<rparr>)"
                by (simp add: untouched_def)
              have "set ?rows' \<subseteq> set ?table'" by auto
              with ok own unt have good: "?good ?rows' (w\<lparr>tables := (tables w)(?t := ?table')\<rparr>)"
                by auto
              have eq: "statement q w =
                  (if ''id'' \<in> set (map fst vals') \<and> ?rows' \<noteq> []
                        \<and> \<not> distinct (map (\<lambda>x. field x ''id'') ?table')
                   then failed (ConstraintViolation PrimaryKey) w
                   else respond q (map_option parse_columns (returning q)) ?rows' w
                          (w\<lparr>tables := (tables w)(?t := ?table')\<rparr>))"
                using cols Nil fs UPDATE False Inr None
                by (simp add: statement_def Let_def del: map_map set_map)
              show ?thesis
              proof (cases "''id'' \<in> set (map fst vals') \<and> ?rows' \<noteq> []
                              \<and> \<not> distinct (map (\<lambda>x. field x ''id'') ?table')")
                case True
                from eq have "statement q w = failed (ConstraintViolation PrimaryKey) w"
                  by (simp only: if_P [OF True])
                then show ?thesis by blast
              next
                case noclash: False
                from eq
                have "statement q w = respond q (map_option parse_columns (returning q)) ?rows' w
                        (w\<lparr>tables := (tables w)(?t := ?table')\<rparr>)"
                  by (simp only: if_not_P [OF noclash])
                with good show ?thesis by blast
              qed
            qed
          qed
        qed
      next
        case DELETE
        have "filter (owned ?t B) (filter (\<lambda>r. \<not> ?target r) (tables w ?t)) = filter (owned ?t B) (tables w ?t)"
          if "B \<noteq> A" for B
          by (rule filter_filter_untouched) (use notB that in blast)
        then have "\<forall>B. B \<noteq> A \<longrightarrow>
            untouched B w (w\<lparr>tables := (tables w)(?t := filter (\<lambda>r. \<not> ?target r) (tables w ?t))\<rparr>)"
          by (simp add: untouched_def)
        with DELETE have "?good (filter ?target (tables w ?t))
                     (w\<lparr>tables := (tables w)(?t := filter (\<lambda>r. \<not> ?target r) (tables w ?t))\<rparr>)"
          by (simp add: own)
        moreover from cols Nil fs DELETE
        have "statement q w = respond q (map_option parse_columns (returning q))
                (filter ?target (tables w ?t))
                w (w\<lparr>tables := (tables w)(?t := filter (\<lambda>r. \<not> ?target r) (tables w ?t))\<rparr>)"
          by (simp add: statement_def Let_def)
        ultimately show ?thesis by blast
      qed
    qed
  qed
qed
qed

lemma fst_postgrest: "fst (postgrest q w) = fst (statement q w)"
  by (simp add: postgrest_def split: prod.splits)

lemma snd_postgrest: "snd (postgrest q w) = tick (snd (statement q w))"
  by (simp add: postgrest_def split: prod.splits)

lemma tick_simps [simp]:
  "tables (tick w) = tables w" "uid (tick w) = uid w" "now (tick w) = Suc (now w)"
  "uuids (tick w) = uuids w" "issued (tick w) = issued w"
  by (simp_all add: tick_def)

lemma untouched_tick: "untouched B w (tick w') = untouched B w w'"
  by (simp add: untouched_def)

lemma statement_untouched:
  assumes "uid w = Some A" and "A \<noteq> B"
  shows "untouched B w (snd (statement q w))"
  using statement_outcome [OF assms(1), of q]
proof (elim disjE exE conjE)
  fix e assume "statement q w = failed e w"
  then show ?thesis by (simp add: untouched_refl)
next
  fix proj rows w'
  assume eq: "statement q w = respond q proj rows w w'"
    and unt: "\<forall>B. B \<noteq> A \<longrightarrow> untouched B w w'"
  from unt assms(2) have "untouched B w w'" by simp
  with snd_respond [of q proj rows w w'] eq show ?thesis
    by (auto simp: untouched_refl)
qed

lemma postgrest_untouched:
  assumes "uid w = Some A" and "A \<noteq> B"
  shows "untouched B w (snd (postgrest q w))"
  using statement_untouched [OF assms, of q] by (simp add: snd_postgrest untouched_tick)

lemma respond_not_single:
  "single q \<and> length rows \<noteq> 1 \<Longrightarrow> respond q proj rows w w' = failed NotSingular w"
  by (simp add: respond_def failed_def)

lemma snd_respond_ok:
  "\<not> (single q \<and> length rows \<noteq> 1) \<Longrightarrow> snd (respond q proj rows w w') = w'"
  by (auto simp: respond_def)

lemma rows_of_respond:
  assumes "r \<in> set (rows_of (data (fst (respond q proj rows w w'))))"
  shows "\<not> (single q \<and> length rows \<noteq> 1) \<and> (\<exists>cs r0. r0 \<in> set rows \<and> r = project cs r0)"
proof (cases "single q \<and> length rows \<noteq> 1")
  case True
  with assms show ?thesis by (simp add: respond_not_single failed_def)
next
  case False
  with assms show ?thesis
    by (cases proj; cases rows; cases "single q") (auto simp: respond_def)
qed

lemma postgrest_rows_owned:
  assumes "uid w = Some A" and "verb q \<noteq> DELETE"
    and "r \<in> set (rows_of (data (fst (postgrest q w))))"
  shows "\<exists>r0 cs. r0 \<in> set (tables (snd (postgrest q w)) (tbl q)) \<and> owned (tbl q) A r0
           \<and> r = project cs r0"
  using statement_outcome [OF assms(1), of q]
proof (elim disjE exE conjE)
  fix e assume "statement q w = failed e w"
  with assms(3) show ?thesis by (simp add: failed_def fst_postgrest)
next
  fix proj rows w'
  assume eq: "statement q w = respond q proj rows w w'"
    and rows: "\<forall>r \<in> set rows. owned (tbl q) A r \<and> (verb q \<noteq> DELETE \<longrightarrow> r \<in> set (tables w' (tbl q)))"
  from assms(3) eq have "r \<in> set (rows_of (data (fst (respond q proj rows w w'))))"
    by (simp add: fst_postgrest)
  from rows_of_respond [OF this] obtain cs r0 where
    ok: "\<not> (single q \<and> length rows \<noteq> 1)" and r0: "r0 \<in> set rows" "r = project cs r0"
    by blast
  from eq snd_respond_ok [OF ok] have "tables (snd (postgrest q w)) = tables w'"
    by (simp add: snd_postgrest)
  with rows assms(2) r0 show ?thesis by auto
qed

section \<open>Isolation between users\<close>


lemma untouched_trans: "untouched B w w1 \<Longrightarrow> untouched B w1 w2 \<Longrightarrow> untouched B w w2"
  by (simp add: untouched_def)

lemma run_untouched:
  "uid w = Some A \<Longrightarrow> A \<noteq> B \<Longrightarrow> untouched B w (snd (run postgrest p w))"
proof (induction p arbitrary: w)
  case (Return x)
  then show ?case by (simp add: untouched_refl)
next
  case (Await q k)
  obtain r w1 where step: "postgrest q w = (r, w1)" by (cases "postgrest q w")
  from postgrest_untouched [OF Await.prems, of q] step have u1: "untouched B w w1" by simp
  then have "uid w1 = Some A" using Await.prems(1) by (simp add: untouched_def)
  from Await.IH [OF _ this Await.prems(2), of "k r"] have "untouched B w1 (snd (run postgrest (k r) w1))"
    by simp
  with u1 step show ?case by (simp add: untouched_trans)
qed

lemma statement_select_world: "verb q = SELECT s \<Longrightarrow> snd (statement q w) = w"
  using snd_respond [of q "Some (parse_columns s)" _ w w]
  by (auto simp: statement_def Let_def split: option.splits list.splits sum.splits)

lemma postgrest_select_world: "verb q = SELECT s \<Longrightarrow> snd (postgrest q w) = tick w"
  by (simp add: snd_postgrest statement_select_world)

lemmas builder_defs = from_table_def select_cols_def insert_rows_def update_values_def delete_rows_def
  eq_filter_def gte_filter_def order_desc_def select_returning_def single_row_def

lemmas facade_defs = getUserProfile_def updateUserProfile_def
  getIncome_def addIncome_def updateIncome_def deleteIncome_def
  getExpenses_def addExpense_def updateExpense_def deleteExpense_def
  getInvestments_def addInvestment_def updateInvestment_def deleteInvestment_def
  getSavingsGoals_def addSavingsGoal_def updateSavingsGoal_def deleteSavingsGoal_def
  getBudgets_def addBudget_def updateBudget_def deleteBudget_def
  getExpensesByCategory_def

lemma invoke_single:
  assumes "\<forall>tza today u. c \<noteq> CallGetMonthlyData tza today u"
  shows "\<exists>q. (invoke c :: (request, 'e response, row list) prog)
            = Await q (\<lambda>r. Return (if verb q = DELETE then [] else rows_of (data r)))"
  using assms by (cases c) (simp_all add: facade_defs builder_defs)

lemma invoke_rows_owned:
  assumes A: "uid w = Some A"
    and r: "r \<in> set (fst (run postgrest (invoke c) w))"
  shows "\<exists>t r0 cs. r0 \<in> set (tables (snd (run postgrest (invoke c) w)) t) \<and> owned t A r0
           \<and> r = project cs r0"
proof (cases "\<exists>tza today u. c = CallGetMonthlyData tza today u")
  case False
  then obtain q where q: "(invoke c :: (request, db_error response, row list) prog)
            = Await q (\<lambda>r. Return (if verb q = DELETE then [] else rows_of (data r)))"
    using invoke_single [of c] by blast
  from r have nd: "verb q \<noteq> DELETE" and r': "r \<in> set (rows_of (data (fst (postgrest q w))))"
    by (auto simp: q split: prod.splits if_splits)
  have "snd (run postgrest (invoke c) w) = snd (postgrest q w)"
    by (simp add: q split: prod.splits)
  with postgrest_rows_owned [OF A nd r'] show ?thesis
    by metis
next
  case True
  then obtain tza today u where c: "c = CallGetMonthlyData tza today u" by blast
  define q1 where "q1 = gte_filter ''date'' (VDate (isoDate tza (setMonth today (int (month today) - 6))))
                  (eq_filter ''user_id'' (VText u) (select_cols (from_table ''income'') ''amount, date''))"
  define q2 where "q2 = gte_filter ''date'' (VDate (isoDate tza (setMonth today (int (month today) - 6))))
                  (eq_filter ''user_id'' (VText u) (select_cols (from_table ''expenses'') ''amount, date''))"
  have v1: "verb q1 = SELECT ''amount, date''" and v2: "verb q2 = SELECT ''amount, date''"
    by (simp_all add: q1_def q2_def builder_defs)
  have w1: "snd (postgrest q1 w) = tick w" and w2: "snd (postgrest q2 (tick w)) = tick (tick w)"
    using v1 v2 by (simp_all add: postgrest_select_world)
  have A': "uid (tick w) = Some A" using A by simp
  have run: "run postgrest (invoke c) w
      = (rows_of (data (fst (postgrest q1 w))) @ rows_of (data (fst (postgrest q2 (tick w)))),
         tick (tick w))"
    using w1 w2 by (simp add: c getMonthlyData_def Let_def q1_def [symmetric] q2_def [symmetric]
        case_prod_beta)
  from r run consider "r \<in> set (rows_of (data (fst (postgrest q1 w))))"
    | "r \<in> set (rows_of (data (fst (postgrest q2 (tick w)))))" by auto
  then show ?thesis
  proof cases
    case 1
    have "verb q1 \<noteq> DELETE" using v1 by simp
    from postgrest_rows_owned [OF A this 1] obtain r0 cs where
      "r0 \<in> set (tables w (tbl q1))" "owned (tbl q1) A r0" "r = project cs r0"
      by (auto simp: w1)
    then show ?thesis by (auto simp: run)
  next
    case 2
    have "verb q2 \<noteq> DELETE" using v2 by simp
    from postgrest_rows_owned [OF A' this 2] obtain r0 cs where
      "r0 \<in> set (tables w (tbl q2))" "owned (tbl q2) A r0" "r = project cs r0"
      by (auto simp: w2)
    then show ?thesis by (auto simp: run)
  qed
qed

lemma coerce_text: "coerce ty c v = Inr (VText x) \<Longrightarrow> type_in ty c v = Inr (VText x)"
  by (auto simp: coerce_def split: sum.splits option.splits coltype.splits val.splits)

lemma coerce_row_text:
  "coerce_row t r = Inr r1 \<Longrightarrow> map_of r1 c = Some (VText x) \<Longrightarrow>
     \<exists>v. map_of r c = Some v \<and> type_in (column_type t c) c v = Inr (VText x)"
proof (induction r arbitrary: r1)
  case Nil
  then show ?case by simp
next
  case (Cons a r)
  obtain c0 v0 where a: "a = (c0, v0)" by (cases a)
  from Cons.prems(1) obtain v' r' where
    v': "coerce (column_type t c0) c0 v0 = Inr v'" and r': "coerce_row t r = Inr r'"
    and r1: "r1 = (c0, v') # r'"
    by (auto simp: a split: sum.splits)
  show ?case
  proof (cases "c = c0")
    case True
    with Cons.prems(2) r1 have "v' = VText x" by simp
    with v' have "type_in (column_type t c0) c0 v0 = Inr (VText x)" by (simp add: coerce_text)
    with True a show ?thesis by simp
  next
    case False
    with Cons.prems(2) r1 have "map_of r' c = Some (VText x)" by simp
    from Cons.IH [OF r' this] False a show ?thesis by simp
  qed
qed

lemma field_with_defaults_user_id:
  "field (with_defaults w t cols r) ''user_id'' = VText x \<Longrightarrow> field r ''user_id'' = VText x"
  by (auto simp: field_def with_defaults_def budgets_default_def server_default_def
      map_of_map_restrict restrict_map_def split: option.splits if_splits)

lemma insert_one_owner:
  assumes "uid w = Some A" and "t \<noteq> ''user_profiles''"
    and "insert_one t cols w r = Inr (r', w')"
  shows "creates_for t r A"
proof -
  from assms(3) obtain r1 where r1: "coerce_row t r = Inr r1"
    and vis: "visible w t (with_defaults w t cols r1)"
    by (auto simp: insert_one_def Let_def split: list.splits sum.splits if_splits option.splits)
  from visible_owned [OF assms(1) vis] assms(2)
  have "field (with_defaults w t cols r1) ''user_id'' = VText A"
    by (simp add: owned_def owner_column_def)
  then have "field r1 ''user_id'' = VText A" by (rule field_with_defaults_user_id)
  then have "map_of r1 ''user_id'' = Some (VText A)"
    by (simp add: field_def split: option.splits)
  from coerce_row_text [OF r1 this] show ?thesis
    by (auto simp: field_def creates_for_def stored_as_def)
qed

lemma typed_filters_mem:
  "typed_filters t fs0 = Inr fs \<Longrightarrow> f \<in> set fs0 \<Longrightarrow> \<exists>f'. typed_filter t f = Inr f' \<and> f' \<in> set fs"
proof (induction fs0 arbitrary: fs)
  case Nil
  then show ?case by simp
next
  case (Cons g gs)
  from Cons.prems(1) obtain g' gs' where
    g': "typed_filter t g = Inr g'" and gs': "typed_filters t gs = Inr gs'" and fs: "fs = g' # gs'"
    by (auto split: sum.splits)
  show ?case
  proof (cases "f = g")
    case True
    with g' fs show ?thesis by simp
  next
    case False
    with Cons.prems(2) have "f \<in> set gs" by simp
    from Cons.IH [OF gs' this] fs show ?thesis by auto
  qed
qed

lemma typed_filters_Eq:
  assumes "typed_filters t fs0 = Inr fs" and "Eq c v \<in> set fs0"
  shows "\<exists>v'. stored_as t c v = Some v' \<and> Eq c v' \<in> set fs"
  using typed_filters_mem [OF assms]
  by (auto simp: stored_as_def split: sum.splits)

lemma no_target_owner:
  assumes "uid w = Some A" and "\<not> names_user t u A"
    and "typed_filters t fs0 = Inr fs" and "Eq (owner_column t) (VText u) \<in> set fs0"
  shows "no_target w t fs"
  unfolding no_target_def
proof (intro ballI notI)
  fix r assume tr: "visible w t r \<and> matches fs r"
  from typed_filters_Eq [OF assms(3,4)] obtain v' where
    v': "stored_as t (owner_column t) (VText u) = Some v'" "Eq (owner_column t) v' \<in> set fs"
    by blast
  from tr have "owned t A r" using assms(1) by (auto simp: visible_owned)
  moreover from tr v'(2) have "holds (Eq (owner_column t) v') r"
    by (auto simp: matches_def list_all_iff)
  ultimately have "v' = VText A" by (auto simp: owned_def)
  with v'(1) assms(2) show False by (simp add: names_user_def)
qed

lemma no_target_id:
  assumes "uid w = Some A" and "\<not> owns_id A w t i"
    and "typed_filters t fs0 = Inr fs" and "Eq ''id'' (VText i) \<in> set fs0"
  shows "no_target w t fs"
  unfolding no_target_def
proof (intro ballI notI)
  fix r assume r: "r \<in> set (tables w t)" and tr: "visible w t r \<and> matches fs r"
  from typed_filters_Eq [OF assms(3,4)] obtain v' where
    v': "stored_as t ''id'' (VText i) = Some v'" "Eq ''id'' v' \<in> set fs"
    by blast
  from tr have own: "owned t A r" using assms(1) by (auto simp: visible_owned)
  from tr v'(2) have "holds (Eq ''id'' v') r"
    by (auto simp: matches_def list_all_iff)
  then have "field r ''id'' = v'" "field r ''id'' \<noteq> VNull" by auto
  with r own v'(1) assms(2) show False by (auto simp: owns_id_def list_ex_iff)
qed

lemma filter_no_target:
  "no_target w t fs \<Longrightarrow> filter (\<lambda>r. visible w t r \<and> matches fs r) (tables w t) = []"
  by (auto simp: no_target_def filter_empty_conv)

lemma map_no_target:
  "no_target w t fs \<Longrightarrow>
     map (\<lambda>r. if visible w t r \<and> matches fs r then f r else r) (tables w t) = tables w t"
  by (rule map_idI) (auto simp: no_target_def)

lemma filter_not_no_target:
  "no_target w t fs \<Longrightarrow>
     filter (\<lambda>r. \<not> (visible w t r \<and> matches fs r)) (tables w t) = tables w t"
  by (auto simp: no_target_def filter_id_conv)

lemma rows_of_respond_Nil: "rows_of (data (fst (respond q proj [] w w'))) = []"
  by (cases proj; cases "single q") (simp_all add: respond_def)

lemma ordered_Nil [simp]: "ordered ob [] = []"
  by (auto simp: ordered_def split: option.splits)

lemma no_target_nothing:
  assumes "\<And>fs. typed_filters (tbl q) (filters q) = Inr fs \<Longrightarrow> no_target w (tbl q) fs"
    and "\<forall>rows. verb q \<noteq> INSERT rows"
  shows "(verb q = DELETE \<or> rows_of (data (fst (postgrest q w))) = [])
       \<and> tables (snd (postgrest q w)) = tables w"
proof -
  have "(verb q = DELETE \<or> rows_of (data (fst (statement q w))) = [])
       \<and> tables (snd (statement q w)) = tables w"
  proof (cases "table_columns (tbl q)")
    case None
    then show ?thesis by (simp add: statement_def failed_def)
  next
    case cols: (Some cols)
    show ?thesis
    proof (cases "undefined_columns cols q")
      case (Cons c cs)
      with cols show ?thesis by (simp add: statement_def failed_def)
    next
      case Nil
      show ?thesis
      proof (cases "typed_filters (tbl q) (filters q)")
        case (Inl e)
        with cols Nil show ?thesis by (simp add: statement_def failed_def)
      next
        case fs: (Inr fs)
        note none = assms(1) [OF fs]
        note nt = filter_no_target [OF none] map_no_target [OF none] filter_not_no_target [OF none]
        have same: "tables (snd (respond q proj rows w (w\<lparr>tables := (tables w)(tbl q := tables w (tbl q))\<rparr>)))
                     = tables w" for proj rows
          using snd_respond [of q proj rows w "w\<lparr>tables := (tables w)(tbl q := tables w (tbl q))\<rparr>"]
          by auto
        show ?thesis
        proof (cases "verb q")
          case (SELECT s)
          with cols Nil fs nt show ?thesis
            using snd_respond [of q "Some (parse_columns s)" "[]" w w]
            by (auto simp: statement_def Let_def rows_of_respond_Nil)
        next
          case (INSERT rows)
          with assms(2) show ?thesis by simp
        next
          case (UPDATE vals)
          show ?thesis
          proof (cases "vals = []")
            case True
            with cols Nil fs UPDATE show ?thesis
              using snd_respond [of q "map_option parse_columns (returning q)" "[]" w w]
              by (auto simp: statement_def Let_def rows_of_respond_Nil)
          next
            case False
            show ?thesis
            proof (cases "coerce_row (tbl q) vals")
              case (Inl e)
              with cols Nil fs UPDATE False show ?thesis by (simp add: statement_def Let_def failed_def)
            next
              case (Inr vals')
              with cols Nil fs UPDATE False nt same show ?thesis
                by (simp add: statement_def Let_def rows_of_respond_Nil first_error_def)
            qed
          qed
        next
          case DELETE
          with cols Nil fs nt same show ?thesis
            by (simp add: statement_def Let_def)
        qed
      qed
    qed
  qed
  then show ?thesis by (simp add: fst_postgrest snd_postgrest)
qed

lemma out_owner:
  assumes "uid w = Some A" and "\<not> names_user t u A" and "tbl q = t"
    and "Eq (owner_column t) (VText u) \<in> set (filters q)" and "\<forall>rows. verb q \<noteq> INSERT rows"
  shows "(verb q = DELETE \<or> rows_of (data (fst (postgrest q w))) = [])
       \<and> tables (snd (postgrest q w)) = tables w"
proof (rule no_target_nothing [OF _ assms(5)])
  fix fs assume "typed_filters (tbl q) (filters q) = Inr fs"
  with assms(3) have "typed_filters t (filters q) = Inr fs" by simp
  from no_target_owner [OF assms(1,2) this assms(4)] assms(3)
  show "no_target w (tbl q) fs" by simp
qed

lemma out_id:
  assumes "uid w = Some A" and "\<not> owns_id A w t i" and "tbl q = t"
    and "Eq ''id'' (VText i) \<in> set (filters q)" and "\<forall>rows. verb q \<noteq> INSERT rows"
  shows "(verb q = DELETE \<or> rows_of (data (fst (postgrest q w))) = [])
       \<and> tables (snd (postgrest q w)) = tables w"
proof (rule no_target_nothing [OF _ assms(5)])
  fix fs assume "typed_filters (tbl q) (filters q) = Inr fs"
  with assms(3) have "typed_filters t (filters q) = Inr fs" by simp
  from no_target_id [OF assms(1,2) this assms(4)] assms(3)
  show "no_target w (tbl q) fs" by simp
qed

lemma insert_out_of_reach:
  assumes "uid w = Some A" and "verb q = INSERT [r]" and "tbl q = t" and "t \<noteq> ''user_profiles''"
    and "\<not> creates_for t r A"
  shows "rows_of (data (fst (postgrest q w))) = [] \<and> tables (snd (postgrest q w)) = tables w"
proof -
  have "rows_of (data (fst (statement q w))) = [] \<and> snd (statement q w) = w"
  proof (cases "table_columns (tbl q)")
    case None
    then show ?thesis by (simp add: statement_def failed_def)
  next
    case cols: (Some cols)
    show ?thesis
    proof (cases "undefined_columns cols q")
      case (Cons c cs)
      with cols show ?thesis by (simp add: statement_def failed_def)
    next
      case Nil
      show ?thesis
      proof (cases "typed_filters (tbl q) (filters q)")
        case (Inl e)
        with cols Nil show ?thesis by (simp add: statement_def failed_def)
      next
        case fs: (Inr fs)
        have "\<exists>e. insert_one t cols w r = Inl e"
        proof (cases "insert_one t cols w r")
          case (Inr res)
          obtain r' w' where "res = (r', w')" by (cases res)
          with insert_one_owner [OF assms(1,4), of cols r r' w'] Inr assms(5) show ?thesis by simp
        qed simp
        then obtain e where "insert_one t cols w r = Inl e" by blast
        with cols Nil fs assms(2,3) show ?thesis by (simp add: statement_def Let_def failed_def)
      qed
    qed
  qed
  then show ?thesis by (simp add: fst_postgrest snd_postgrest)
qed

lemma invoke_out_of_reach:
  assumes A: "uid w = Some A" and out: "\<not> within_reach A w c"
  shows "fst (run postgrest (invoke c) w) = [] \<and> tables (snd (run postgrest (invoke c) w)) = tables w"
proof (cases c)
  case (CallGetUserProfile u)
  let ?q = "single_row (eq_filter ''id'' (VText u) (select_cols (from_table ''user_profiles'') ''*''))"
  from out have nn: "\<not> names_user ''user_profiles'' u A" by (simp add: CallGetUserProfile)
  have "(verb ?q = DELETE \<or> rows_of (data (fst (postgrest ?q w))) = [])
       \<and> tables (snd (postgrest ?q w)) = tables w"
    by (rule out_owner [OF A nn]) (simp_all add: builder_defs owner_column_def)
  then show ?thesis
    by (simp add: CallGetUserProfile getUserProfile_def case_prod_beta builder_defs)
next
  case (CallUpdateUserProfile u p)
  let ?q = "single_row (select_returning (eq_filter ''id'' (VText u)
              (update_values (from_table ''user_profiles'') p)))"
  from out have nn: "\<not> names_user ''user_profiles'' u A" by (simp add: CallUpdateUserProfile)
  have "(verb ?q = DELETE \<or> rows_of (data (fst (postgrest ?q w))) = [])
       \<and> tables (snd (postgrest ?q w)) = tables w"
    by (rule out_owner [OF A nn]) (simp_all add: builder_defs owner_column_def)
  then show ?thesis
    by (simp add: CallUpdateUserProfile updateUserProfile_def case_prod_beta builder_defs)
next
  case (CallGetIncome u)
  let ?q = "order_desc ''date'' (eq_filter ''user_id'' (VText u) (select_cols (from_table ''income'') ''*''))"
  from out have nn: "\<not> names_user ''income'' u A" by (simp add: CallGetIncome)
  have "(verb ?q = DELETE \<or> rows_of (data (fst (postgrest ?q w))) = [])
       \<and> tables (snd (postgrest ?q w)) = tables w"
    by (rule out_owner [OF A nn]) (simp_all add: builder_defs owner_column_def)
  then show ?thesis
    by (simp add: CallGetIncome getIncome_def case_prod_beta builder_defs)
next
  case (CallAddIncome r)
  let ?q = "single_row (select_returning (insert_rows (from_table ''income'') [r]))"
  from out have nn: "\<not> creates_for ''income'' r A" by (simp add: CallAddIncome)
  have "rows_of (data (fst (postgrest ?q w))) = [] \<and> tables (snd (postgrest ?q w)) = tables w"
    by (rule insert_out_of_reach [OF A _ _ _ nn]) (simp_all add: builder_defs)
  then show ?thesis
    by (simp add: CallAddIncome addIncome_def case_prod_beta)
next
  case (CallUpdateIncome i p)
  let ?q = "single_row (select_returning (eq_filter ''id'' (VText i) (update_values (from_table ''income'') p)))"
  from out have nn: "\<not> owns_id A w ''income'' i" by (simp add: CallUpdateIncome)
  have "(verb ?q = DELETE \<or> rows_of (data (fst (postgrest ?q w))) = [])
       \<and> tables (snd (postgrest ?q w)) = tables w"
    by (rule out_id [OF A nn]) (simp_all add: builder_defs)
  then show ?thesis
    by (simp add: CallUpdateIncome updateIncome_def case_prod_beta builder_defs)
next
  case (CallDeleteIncome i)
  let ?q = "eq_filter ''id'' (VText i) (delete_rows (from_table ''income''))"
  from out have nn: "\<not> owns_id A w ''income'' i" by (simp add: CallDeleteIncome)
  have "(verb ?q = DELETE \<or> rows_of (data (fst (postgrest ?q w))) = [])
       \<and> tables (snd (postgrest ?q w)) = tables w"
    by (rule out_id [OF A nn]) (simp_all add: builder_defs)
  then show ?thesis
    by (simp add: CallDeleteIncome deleteIncome_def case_prod_beta builder_defs)
next
  case (CallGetExpenses u)
  let ?q = "order_desc ''date'' (eq_filter ''user_id'' (VText u) (select_cols (from_table ''expenses'') ''*''))"
  from out have nn: "\<not> names_user ''expenses'' u A" by (simp add: CallGetExpenses)
  have "(verb ?q = DELETE \<or> rows_of (data (fst (postgrest ?q w))) = [])
       \<and> tables (snd (postgrest ?q w)) = tables w"
    by (rule out_owner [OF A nn]) (simp_all add: builder_defs owner_column_def)
  then show ?thesis
    by (simp add: CallGetExpenses getExpenses_def case_prod_beta builder_defs)
next
  case (CallAddExpense r)
  let ?q = "single_row (select_returning (insert_rows (from_table ''expenses'') [r]))"
  from out have nn: "\<not> creates_for ''expenses'' r A" by (simp add: CallAddExpense)
  have "rows_of (data (fst (postgrest ?q w))) = [] \<and> tables (snd (postgrest ?q w)) = tables w"
    by (rule insert_out_of_reach [OF A _ _ _ nn]) (simp_all add: builder_defs)
  then show ?thesis
    by (simp add: CallAddExpense addExpense_def case_prod_beta)
next
  case (CallUpdateExpense i p)
  let ?q = "single_row (select_returning (eq_filter ''id'' (VText i) (update_values (from_table ''expenses'') p)))"
  from out have nn: "\<not> owns_id A w ''expenses'' i" by (simp add: CallUpdateExpense)
  have "(verb ?q = DELETE \<or> rows_of (data (fst (postgrest ?q w))) = [])
       \<and> tables (snd (postgrest ?q w)) = tables w"
    by (rule out_id [OF A nn]) (simp_all add: builder_defs)
  then show ?thesis
    by (simp add: CallUpdateExpense updateExpense_def case_prod_beta builder_defs)
next
  case (CallDeleteExpense i)
  let ?q = "eq_filter ''id'' (VText i) (delete_rows (from_table ''expenses''))"
  from out have nn: "\<not> owns_id A w ''expenses'' i" by (simp add: CallDeleteExpense)
  have "(verb ?q = DELETE \<or> rows_of (data (fst (postgrest ?q w))) = [])
       \<and> tables (snd (postgrest ?q w)) = tables w"
    by (rule out_id [OF A nn]) (simp_all add: builder_defs)
  then show ?thesis
    by (simp add: CallDeleteExpense deleteExpense_def case_prod_beta builder_defs)
next
  case (CallGetInvestments u)
  let ?q = "order_desc ''date'' (eq_filter ''user_id'' (VText u) (select_cols (from_table ''investments'') ''*''))"
  from out have nn: "\<not> names_user ''investments'' u A" by (simp add: CallGetInvestments)
  have "(verb ?q = DELETE \<or> rows_of (data (fst (postgrest ?q w))) = [])
       \<and> tables (snd (postgrest ?q w)) = tables w"
    by (rule out_owner [OF A nn]) (simp_all add: builder_defs owner_column_def)
  then show ?thesis
    by (simp add: CallGetInvestments getInvestments_def case_prod_beta builder_defs)
next
  case (CallAddInvestment r)
  let ?q = "single_row (select_returning (insert_rows (from_table ''investments'') [r]))"
  from out have nn: "\<not> creates_for ''investments'' r A" by (simp add: CallAddInvestment)
  have "rows_of (data (fst (postgrest ?q w))) = [] \<and> tables (snd (postgrest ?q w)) = tables w"
    by (rule insert_out_of_reach [OF A _ _ _ nn]) (simp_all add: builder_defs)
  then show ?thesis
    by (simp add: CallAddInvestment addInvestment_def case_prod_beta)
next
  case (CallUpdateInvestment i p)
  let ?q = "single_row (select_returning (eq_filter ''id'' (VText i) (update_values (from_table ''investments'') p)))"
  from out have nn: "\<not> owns_id A w ''investments'' i" by (simp add: CallUpdateInvestment)
  have "(verb ?q = DELETE \<or> rows_of (data (fst (postgrest ?q w))) = [])
       \<and> tables (snd (postgrest ?q w)) = tables w"
    by (rule out_id [OF A nn]) (simp_all add: builder_defs)
  then show ?thesis
    by (simp add: CallUpdateInvestment updateInvestment_def case_prod_beta builder_defs)
next
  case (CallDeleteInvestment i)
  let ?q = "eq_filter ''id'' (VText i) (delete_rows (from_table ''investments''))"
  from out have nn: "\<not> owns_id A w ''investments'' i" by (simp add: CallDeleteInvestment)
  have "(verb ?q = DELETE \<or> rows_of (data (fst (postgrest ?q w))) = [])
       \<and> tables (snd (postgrest ?q w)) = tables w"
    by (rule out_id [OF A nn]) (simp_all add: builder_defs)
  then show ?thesis
    by (simp add: CallDeleteInvestment deleteInvestment_def case_prod_beta builder_defs)
next
  case (CallGetSavingsGoals u)
  let ?q = "order_desc ''created_at'' (eq_filter ''user_id'' (VText u) (select_cols (from_table ''savings'') ''*''))"
  from out have nn: "\<not> names_user ''savings'' u A" by (simp add: CallGetSavingsGoals)
  have "(verb ?q = DELETE \<or> rows_of (data (fst (postgrest ?q w))) = [])
       \<and> tables (snd (postgrest ?q w)) = tables w"
    by (rule out_owner [OF A nn]) (simp_all add: builder_defs owner_column_def)
  then show ?thesis
    by (simp add: CallGetSavingsGoals getSavingsGoals_def case_prod_beta builder_defs)
next
  case (CallAddSavingsGoal r)
  let ?q = "single_row (select_returning (insert_rows (from_table ''savings'') [r]))"
  from out have nn: "\<not> creates_for ''savings'' r A" by (simp add: CallAddSavingsGoal)
  have "rows_of (data (fst (postgrest ?q w))) = [] \<and> tables (snd (postgrest ?q w)) = tables w"
    by (rule insert_out_of_reach [OF A _ _ _ nn]) (simp_all add: builder_defs)
  then show ?thesis
    by (simp add: CallAddSavingsGoal addSavingsGoal_def case_prod_beta)
next
  case (CallUpdateSavingsGoal i p)
  let ?q = "single_row (select_returning (eq_filter ''id'' (VText i) (update_values (from_table ''savings'') p)))"
  from out have nn: "\<not> owns_id A w ''savings'' i" by (simp add: CallUpdateSavingsGoal)
  have "(verb ?q = DELETE \<or> rows_of (data (fst (postgrest ?q w))) = [])
       \<and> tables (snd (postgrest ?q w)) = tables w"
    by (rule out_id [OF A nn]) (simp_all add: builder_defs)
  then show ?thesis
    by (simp add: CallUpdateSavingsGoal updateSavingsGoal_def case_prod_beta builder_defs)
next
  case (CallDeleteSavingsGoal i)
  let ?q = "eq_filter ''id'' (VText i) (delete_rows (from_table ''savings''))"
  from out have nn: "\<not> owns_id A w ''savings'' i" by (simp add: CallDeleteSavingsGoal)
  have "(verb ?q = DELETE \<or> rows_of (data (fst (postgrest ?q w))) = [])
       \<and> tables (snd (postgrest ?q w)) = tables w"
    by (rule out_id [OF A nn]) (simp_all add: builder_defs)
  then show ?thesis
    by (simp add: CallDeleteSavingsGoal deleteSavingsGoal_def case_prod_beta builder_defs)
next
  case (CallGetBudgets u)
  let ?q = "order_desc ''created_at'' (eq_filter ''user_id'' (VText u) (select_cols (from_table ''budgets'') ''*''))"
  from out have nn: "\<not> names_user ''budgets'' u A" by (simp add: CallGetBudgets)
  have "(verb ?q = DELETE \<or> rows_of (data (fst (postgrest ?q w))) = [])
       \<and> tables (snd (postgrest ?q w)) = tables w"
    by (rule out_owner [OF A nn]) (simp_all add: builder_defs owner_column_def)
  then show ?thesis
    by (simp add: CallGetBudgets getBudgets_def case_prod_beta builder_defs)
next
  case (CallAddBudget r)
  let ?q = "single_row (select_returning (insert_rows (from_table ''budgets'') [r]))"
  from out have nn: "\<not> creates_for ''budgets'' r A" by (simp add: CallAddBudget)
  have "rows_of (data (fst (postgrest ?q w))) = [] \<and> tables (snd (postgrest ?q w)) = tables w"
    by (rule insert_out_of_reach [OF A _ _ _ nn]) (simp_all add: builder_defs)
  then show ?thesis
    by (simp add: CallAddBudget addBudget_def case_prod_beta)
next
  case (CallUpdateBudget i p)
  let ?q = "single_row (select_returning (eq_filter ''id'' (VText i) (update_values (from_table ''budgets'') p)))"
  from out have nn: "\<not> owns_id A w ''budgets'' i" by (simp add: CallUpdateBudget)
  have "(verb ?q = DELETE \<or> rows_of (data (fst (postgrest ?q w))) = [])
       \<and> tables (snd (postgrest ?q w)) = tables w"
    by (rule out_id [OF A nn]) (simp_all add: builder_defs)
  then show ?thesis
    by (simp add: CallUpdateBudget updateBudget_def case_prod_beta builder_defs)
next
  case (CallDeleteBudget i)
  let ?q = "eq_filter ''id'' (VText i) (delete_rows (from_table ''budgets''))"
  from out have nn: "\<not> owns_id A w ''budgets'' i" by (simp add: CallDeleteBudget)
  have "(verb ?q = DELETE \<or> rows_of (data (fst (postgrest ?q w))) = [])
       \<and> tables (snd (postgrest ?q w)) = tables w"
    by (rule out_id [OF A nn]) (simp_all add: builder_defs)
  then show ?thesis
    by (simp add: CallDeleteBudget deleteBudget_def case_prod_beta builder_defs)
next
  case (CallGetExpensesByCategory u)
  let ?q = "eq_filter ''user_id'' (VText u) (select_cols (from_table ''expenses'') ''category, amount'')"
  from out have nn: "\<not> names_user ''expenses'' u A" by (simp add: CallGetExpensesByCategory)
  have "(verb ?q = DELETE \<or> rows_of (data (fst (postgrest ?q w))) = [])
       \<and> tables (snd (postgrest ?q w)) = tables w"
    by (rule out_owner [OF A nn]) (simp_all add: builder_defs owner_column_def)
  then show ?thesis
    by (simp add: CallGetExpensesByCategory getExpensesByCategory_def case_prod_beta builder_defs)
next
  case (CallGetMonthlyData tza today u)
  let ?d = "VDate (isoDate tza (setMonth today (int (month today) - 6)))"
  let ?q1 = "gte_filter ''date'' ?d (eq_filter ''user_id'' (VText u) (select_cols (from_table ''income'') ''amount, date''))"
  let ?q2 = "gte_filter ''date'' ?d (eq_filter ''user_id'' (VText u) (select_cols (from_table ''expenses'') ''amount, date''))"
  from out have "\<not> names_user ''income'' u A \<or> \<not> names_user ''expenses'' u A"
    by (simp add: CallGetMonthlyData)
  then have n1: "\<not> names_user ''income'' u A" and n2: "\<not> names_user ''expenses'' u A"
    by (auto simp: names_user_def stored_as_def owner_column_def column_type_def)
  have A': "uid (tick w) = Some A" using A by simp
  have "rows_of (data (fst (postgrest ?q1 w))) = []"
    using out_owner [OF A n1, of ?q1] by (simp add: builder_defs owner_column_def)
  moreover have "rows_of (data (fst (postgrest ?q2 (tick w)))) = []"
    using out_owner [OF A' n2, of ?q2] by (simp add: builder_defs owner_column_def)
  moreover have "snd (postgrest ?q1 w) = tick w" and "snd (postgrest ?q2 (tick w)) = tick (tick w)"
    by (rule postgrest_select_world, simp add: builder_defs)+
  ultimately show ?thesis
    by (simp add: CallGetMonthlyData getMonthlyData_def Let_def case_prod_beta)
qed

text \<open>
  Claim C1. A caller authenticated as \<open>A\<close> makes any call of the layer; \<open>B\<close> is another
  user. The call leaves every record owned by \<open>B\<close>, in every table, as it was (none is
  modified or removed); every row it hands back is (a projection of) a record that \<open>A\<close>
  owns and \<open>B\<close> does not; and a call that is not within \<open>A\<close>'s reach (it names another
  user, or a record \<open>A\<close> does not own) hands back nothing and changes nothing.
\<close>

theorem facade_call_isolated:
  assumes "uid w = Some A" and "A \<noteq> B"
  shows "(\<forall>t. filter (owned t B) (tables (snd (run postgrest (invoke c) w)) t)
              = filter (owned t B) (tables w t))
       \<and> (\<forall>r \<in> set (fst (run postgrest (invoke c) w)).
             \<exists>t r0 cs. r0 \<in> set (tables (snd (run postgrest (invoke c) w)) t)
                \<and> owned t A r0 \<and> \<not> owned t B r0 \<and> r = project cs r0)
       \<and> (\<not> within_reach A w c \<longrightarrow>
             fst (run postgrest (invoke c) w) = []
             \<and> tables (snd (run postgrest (invoke c) w)) = tables w)"
proof (intro conjI)
  from run_untouched [OF assms, of "invoke c"]
  show "\<forall>t. filter (owned t B) (tables (snd (run postgrest (invoke c) w)) t)
              = filter (owned t B) (tables w t)"
    by (simp add: untouched_def)
  show "\<forall>r \<in> set (fst (run postgrest (invoke c) w)).
             \<exists>t r0 cs. r0 \<in> set (tables (snd (run postgrest (invoke c) w)) t)
                \<and> owned t A r0 \<and> \<not> owned t B r0 \<and> r = project cs r0"
  proof
    fix r assume "r \<in> set (fst (run postgrest (invoke c) w))"
    from invoke_rows_owned [OF assms(1) this] obtain t r0 cs where
      "r0 \<in> set (tables (snd (run postgrest (invoke c) w)) t)" "owned t A r0" "r = project cs r0"
      by blast
    moreover from this(2) assms(2) have "\<not> owned t B r0" by (rule owned_other)
    ultimately show "\<exists>t r0 cs. r0 \<in> set (tables (snd (run postgrest (invoke c) w)) t)
                \<and> owned t A r0 \<and> \<not> owned t B r0 \<and> r = project cs r0"
      by blast
  qed
  show "\<not> within_reach A w c \<longrightarrow>
             fst (run postgrest (invoke c) w) = []
             \<and> tables (snd (run postgrest (invoke c) w)) = tables w"
    using invoke_out_of_reach [OF assms(1)] by blast
qed

theorem facade_call_isolated_witness:
  "fst (run postgrest (invoke (CallUpdateIncome ''i2'' [(''amount'', VNum 1)])) example_world) = []
   \<and> tables (snd (run postgrest (invoke (CallUpdateIncome ''i2'' [(''amount'', VNum 1)])) example_world))
       = tables example_world
   \<and> filter (owned ''income'' ''u2'')
        (tables (snd (run postgrest (invoke (CallDeleteIncome ''i2'')) example_world)) ''income'')
       = [income_row ''i2'' ''u2'' 7 (2025, 4, 1) 11]
   \<and> fst (run postgrest (invoke (CallGetIncome ''u2'')) example_world) = []"
  using facade_call_isolated [of example_world "''u1''" "''u2''" "CallUpdateIncome ''i2'' [(''amount'', VNum 1)]"]
        facade_call_isolated [of example_world "''u1''" "''u2''" "CallDeleteIncome ''i2''"]
        facade_call_isolated [of example_world "''u1''" "''u2''" "CallGetIncome ''u2''"]
  by (simp add: example_world_def income_row_def owns_id_def owned_def field_def owner_column_def
      stored_as_def names_user_def column_type_def)

section \<open>Listing records\<close>


lemma order_key_date: "order_key (VDate a) \<le> order_key (VDate b) \<longleftrightarrow> a \<le> b"
  by (cases a; cases b) (auto simp: less_eq_prod_def)

lemma order_key_time: "order_key (VTime s) \<le> order_key (VTime t) \<longleftrightarrow> s \<le> t"
  by (auto simp: less_eq_prod_def)

lemma sorted_desc_ordered:
  "sorted_wrt (\<lambda>a b. order_key (field b c) \<le> order_key (field a c)) (ordered (Some (c, False)) rows)"
proof -
  have "sorted (map (\<lambda>r. order_key (field r c)) (sort_key (\<lambda>r. order_key (field r c)) rows))"
    by (rule sorted_sort_key)
  then have "sorted_wrt (\<lambda>a b. order_key (field a c) \<le> order_key (field b c))
               (sort_key (\<lambda>r. order_key (field r c)) rows)"
    by (simp add: sorted_wrt_map)
  then show ?thesis by (simp add: ordered_def sorted_wrt_rev)
qed

lemma map_project_None [simp]: "map (project None) rows = rows"
  by (rule map_idI) (simp add: project_def)

lemma stored_as_text:
  "stored_as t c (VText x)
     = (if column_type t c = Some TUuid then map_option VText (uuid_in x)
        else if column_type t c = None \<or> column_type t c = Some TText then Some (VText x)
        else None)"
  by (cases "column_type t c"; simp add: stored_as_def split: coltype.splits option.splits)
    (rename_tac ty, case_tac ty, simp_all split: option.splits)

lemma stored_as_user_id:
  "stored_as t ''user_id'' (VText x)
     = (if t = ''budgets'' then map_option VText (uuid_in x) else Some (VText x))"
  by (simp add: stored_as_text column_type_def)

lemma user_target:
  assumes "t \<noteq> ''user_profiles''"
  shows "(visible w t r \<and> matches [Eq ''user_id'' (VText u)] r) = (uid w = Some u \<and> owned t u r)"
  using assms
  by (auto simp: visible_def budgets_policy_def owner_policy_def owned_def owner_column_def
      matches_def split: option.splits)

lemma type_in_error: "type_in ty c v = Inl e \<Longrightarrow> e = InvalidInput c"
  by (cases "(ty, c, v)" rule: type_in.cases) (auto split: option.splits if_splits)

lemma list_query:
  assumes cols: "table_columns t = Some cols" "''user_id'' \<in> set cols" "c \<in> set cols"
    and t: "t \<noteq> ''user_profiles''"
  shows "postgrest (order_desc c (eq_filter ''user_id'' (VText userId) (select_cols (from_table t) ''*''))) w
       = (case stored_as t ''user_id'' (VText userId) of
            None \<Rightarrow> (\<lparr>data = NoData, error = Some (InvalidInput ''user_id'')\<rparr>, tick w)
          | Some v \<Rightarrow>
              (\<lparr>data = ManyRows (ordered (Some (c, False))
                         (filter (\<lambda>r. visible w t r \<and> matches [Eq ''user_id'' v] r) (tables w t))),
                error = None\<rparr>, tick w))"
  using cols
  by (auto simp: postgrest_def statement_def builder_defs undefined_columns_def parse_columns_def
      respond_def project_def Let_def stored_as_def failed_def split: sum.splits
      dest: type_in_error)

text \<open>
  Claim C8, as amended. For each of the five list functions, any \<open>userId\<close> and any
  caller: the backend reads \<open>userId\<close> as a value of the \<open>user_id\<close> column (literally,
  except that the \<open>uuid\<close> column of \<open>budgets\<close> accepts any spelling of a uuid and refuses
  every other text with an input error). The call then succeeds; if the caller is the
  user that \<open>userId\<close> names, its rows are exactly the records of the table owned by that
  user (each once, no others); for every other caller, signed in or not, it returns no
  row at all, whatever that user owns. The rows come in descending order of the
  function's column (\<open>date\<close> for income, expenses and investments, \<open>created_at\<close> for
  savings goals and budgets), where the order of two dates or two timestamps is the
  chronological one.
\<close>

theorem list_returns_owned_rows_descending:
  assumes "(f, t, c) \<in> set [(getIncome, ''income'', ''date''), (getExpenses, ''expenses'', ''date''),
                              (getInvestments, ''investments'', ''date''),
                              (getSavingsGoals, ''savings'', ''created_at''),
                              (getBudgets, ''budgets'', ''created_at'')]"
  shows "stored_as t ''user_id'' (VText userId)
            = (if t = ''budgets'' then map_option VText (uuid_in userId) else Some (VText userId))
       \<and> (stored_as t ''user_id'' (VText userId) = None \<longrightarrow>
             run postgrest (f userId) w = ((NoData, Some (InvalidInput ''user_id'')), tick w))
       \<and> (\<forall>u. stored_as t ''user_id'' (VText userId) = Some (VText u) \<longrightarrow>
             (\<exists>rows. run postgrest (f userId) w = ((ManyRows rows, None), tick w)
                \<and> mset rows = (if uid w = Some u then mset (filter (owned t u) (tables w t)) else {#})
                \<and> sorted_wrt (\<lambda>a b. order_key (field b c) \<le> order_key (field a c)) rows))
       \<and> (order_key (VDate d1) \<le> order_key (VDate d2) \<longleftrightarrow> d1 \<le> d2)
       \<and> (order_key (VTime t1) \<le> order_key (VTime t2) \<longleftrightarrow> t1 \<le> t2)"
proof -
  from assms have shape: "f userId = Await (order_desc c (eq_filter ''user_id'' (VText userId)
                          (select_cols (from_table t) ''*''))) (\<lambda>r. Return (data r, error r))"
    and "\<exists>cols. table_columns t = Some cols \<and> ''user_id'' \<in> set cols \<and> c \<in> set cols"
    and t: "t \<noteq> ''user_profiles''"
    by (auto simp: facade_defs table_columns_def schema_def)
  then obtain cols where "table_columns t = Some cols" "''user_id'' \<in> set cols" "c \<in> set cols"
    by blast
  note q = list_query [OF this t, of userId w]
  have none: "run postgrest (f userId) w = ((NoData, Some (InvalidInput ''user_id'')), tick w)"
    if "stored_as t ''user_id'' (VText userId) = None"
    using q that by (simp add: shape)
  have some: "\<exists>rows. run postgrest (f userId) w = ((ManyRows rows, None), tick w)
                \<and> mset rows = (if uid w = Some u then mset (filter (owned t u) (tables w t)) else {#})
                \<and> sorted_wrt (\<lambda>a b. order_key (field b c) \<le> order_key (field a c)) rows"
    if st: "stored_as t ''user_id'' (VText userId) = Some (VText u)" for u
  proof -
    let ?rows = "ordered (Some (c, False)) (filter (\<lambda>r. uid w = Some u \<and> owned t u r) (tables w t))"
    from q st have "run postgrest (f userId) w = ((ManyRows ?rows, None), tick w)"
      by (simp add: shape user_target [OF t])
    moreover have "mset ?rows = (if uid w = Some u then mset (filter (owned t u) (tables w t)) else {#})"
      by simp
    moreover note sorted_desc_ordered [of c "filter (\<lambda>r. uid w = Some u \<and> owned t u r) (tables w t)"]
    ultimately show ?thesis by blast
  qed
  from none some stored_as_user_id [of t userId] order_key_date [of d1 d2] order_key_time [of t1 t2]
  show ?thesis by blast
qed

theorem list_returns_owned_rows_descending_witness:
  "(\<exists>rows. run postgrest (getBudgets ''{11111111-11111111-11111111-11111111}'') budgets_world
              = ((ManyRows rows, None), tick budgets_world)
      \<and> mset rows = {#budget_row ''aaaaaaaa-0000-0000-0000-000000000001'' user_a 100 10#}
      \<and> sorted_wrt (\<lambda>a b. order_key (field b ''created_at'') \<le> order_key (field a ''created_at'')) rows)
   \<and> run postgrest (getBudgets ''u1'') budgets_world
        = ((NoData, Some (InvalidInput ''user_id'')), tick budgets_world)
   \<and> (\<exists>rows. run postgrest (getIncome ''u1'') example_world = ((ManyRows rows, None), tick example_world)
      \<and> mset rows = {#income_row ''i1'' ''u1'' 5 (2025, 3, 1) 10, income_row ''i3'' ''u1'' 9 (2025, 5, 1) 12#}
      \<and> sorted_wrt (\<lambda>a b. order_key (field b ''date'') \<le> order_key (field a ''date'')) rows)
   \<and> (\<exists>rows. run postgrest (getIncome ''u2'') example_world = ((ManyRows rows, None), tick example_world)
      \<and> mset rows = {#})"
proof -
  have a: "stored_as ''budgets'' ''user_id'' (VText ''{11111111-11111111-11111111-11111111}'')
             = Some (VText user_a)"
    and b: "stored_as ''budgets'' ''user_id'' (VText ''u1'') = None"
    and c: "stored_as ''income'' ''user_id'' (VText ''u1'') = Some (VText ''u1'')"
    and d: "stored_as ''income'' ''user_id'' (VText ''u2'') = Some (VText ''u2'')"
    by code_simp+
  have rows: "filter (owned ''budgets'' user_a) (tables budgets_world ''budgets'')
                = [budget_row ''aaaaaaaa-0000-0000-0000-000000000001'' user_a 100 10]"
    "filter (owned ''income'' ''u1'') (tables example_world ''income'')
                = [income_row ''i1'' ''u1'' 5 (2025, 3, 1) 10, income_row ''i3'' ''u1'' 9 (2025, 5, 1) 12]"
    "uid budgets_world = Some user_a" "uid example_world = Some ''u1''"
    by code_simp+
  from list_returns_owned_rows_descending
          [of getBudgets "''budgets''" "''created_at''" "''{11111111-11111111-11111111-11111111}''"
              budgets_world "(2025, 3, 1)" "(2025, 5, 1)" 10 12]
       list_returns_owned_rows_descending
          [of getBudgets "''budgets''" "''created_at''" "''u1''"
              budgets_world "(2025, 3, 1)" "(2025, 5, 1)" 10 12]
       list_returns_owned_rows_descending
          [of getIncome "''income''" "''date''" "''u1''" example_world "(2025, 3, 1)" "(2025, 5, 1)" 10 12]
       list_returns_owned_rows_descending
          [of getIncome "''income''" "''date''" "''u2''" example_world "(2025, 3, 1)" "(2025, 5, 1)" 10 12]
  show ?thesis
    by (simp add: a b c d rows del: mset_filter)
qed

text \<open>
  Claim C8 as stated fails: the list is not all records owned by \<open>userId\<close> for every
  \<open>userId\<close>. The second user owns a budget, and \<open>getBudgets\<close> with that user's id,
  called by the first user, succeeds with an empty list.
\<close>

theorem list_of_another_user_is_empty:
  "fst (run postgrest (getBudgets user_b) budgets_world) = (ManyRows [], None)
   \<and> uid budgets_world = Some user_a
   \<and> filter (owned ''budgets'' user_b) (tables budgets_world ''budgets'')
        = [budget_row ''bbbbbbbb-0000-0000-0000-000000000002'' user_b 200 11]"
  by code_simp

section \<open>Updating records\<close>






lemma first_error_Nil [simp]: "first_error [] = None"
  by (simp add: first_error_def)

lemma first_error_single [simp]: "first_error [e] = e"
  by (cases e) (simp_all add: first_error_def)








section \<open>Creating a budget\<close>










section \<open>The monthly analytics queries\<close>


lemma days_in_month_table:
  assumes "m < 12"
  shows "days_in_month y m
       = [31, if y mod 4 = 0 \<and> (y mod 100 \<noteq> 0 \<or> y mod 400 = 0) then 29 else 28,
          31, 30, 31, 30, 31, 31, 30, 31, 30, 31] ! m"
proof -
  from assms have "m = 0 \<or> m = 1 \<or> m = 2 \<or> m = 3 \<or> m = 4 \<or> m = 5 \<or> m = 6 \<or> m = 7
      \<or> m = 8 \<or> m = 9 \<or> m = 10 \<or> m = 11"
    by arith
  then show ?thesis
    by (elim disjE) (simp_all add: days_in_month_def leap_year_def)
qed

lemma setMonth_six_back:
  assumes "month today < 12"
  shows "setMonth today (int (month today) - 6)
       = (let ty = (if month today < 6 then fullYear today - 1 else fullYear today);
              tm = (if month today < 6 then month today + 6 else month today - 6)
          in if day today \<le> days_in_month ty tm then today\<lparr>fullYear := ty, month := tm\<rparr>
             else if tm = 11
               then today\<lparr>fullYear := ty + 1, month := 0, day := day today - days_in_month ty tm\<rparr>
               else today\<lparr>fullYear := ty, month := tm + 1, day := day today - days_in_month ty tm\<rparr>)"
proof (cases "month today < 6")
  case True
  then have "(int (month today) - 6) div 12 = -1" and "(int (month today) - 6) mod 12 = int (month today) + 6"
    by presburger+
  with True show ?thesis by (simp add: setMonth_def Let_def nat_add_distrib)
next
  case False
  with assms have "(int (month today) - 6) div 12 = 0" and "(int (month today) - 6) mod 12 = int (month today) - 6"
    by presburger+
  with False show ?thesis by (simp add: setMonth_def Let_def nat_diff_distrib)
qed

lemma isoDate_same_day:
  assumes "0 \<le> msOfDay d - tza d" and "msOfDay d - tza d < 86400000"
  shows "isoDate tza d = (fullYear d, month d + 1, day d)"
proof -
  from assms have "(msOfDay d - tza d) div 86400000 = 0" by simp
  then show ?thesis by (simp add: isoDate_def msPerDay_def Let_def)
qed

lemma isoDate_day_before:
  assumes "- 86400000 \<le> msOfDay d - tza d" and "msOfDay d - tza d < 0"
  shows "isoDate tza d = prev_day (fullYear d, month d + 1, day d)"
proof -
  have "msOfDay d - tza d = 86400000 * (- 1) + (msOfDay d - tza d + 86400000)"
    by simp
  from int_div_pos_eq [OF this] assms have "(msOfDay d - tza d) div 86400000 = - 1"
    by simp
  then show ?thesis by (simp add: isoDate_def msPerDay_def Let_def)
qed

lemma isoDate_day_after:
  assumes "86400000 \<le> msOfDay d - tza d" and "msOfDay d - tza d < 2 * 86400000"
  shows "isoDate tza d = next_day (fullYear d, month d + 1, day d)"
proof -
  have "msOfDay d - tza d = 86400000 * 1 + (msOfDay d - tza d - 86400000)"
    by simp
  from int_div_pos_eq [OF this] assms have "(msOfDay d - tza d) div 86400000 = 1"
    by simp
  then show ?thesis by (simp add: isoDate_def msPerDay_def Let_def)
qed

lemma ordered_None [simp]: "ordered None rows = rows"
  by (simp add: ordered_def)

lemma project_Some: "project (Some cs) = (\<lambda>r. map (\<lambda>c. (c, field r c)) cs)"
  by (rule ext) (simp add: project_def)

lemma monthly_query:
  assumes "t = ''income'' \<or> t = ''expenses''"
  shows "postgrest \<lparr>tbl = t, verb = SELECT ''amount, date'',
                    filters = [Eq ''user_id'' (VText u), Gte ''date'' cutoff],
                    order_by = None, returning = None, single = False\<rparr> w
       = (\<lparr>data = ManyRows (map (\<lambda>r. [(''amount'', field r ''amount''), (''date'', field r ''date'')])
                  (filter (\<lambda>r. visible w t r \<and> field r ''user_id'' = VText u
                                 \<and> val_gte (field r ''date'') cutoff) (tables w t))),
           error = None\<rparr>, tick w)"
proof -
  have pc: "parse_columns ''amount, date'' = Some [''amount'', ''date'']"
    by (simp add: parse_columns_def comma_def)
  have m: "matches [Eq ''user_id'' (VText u), Gte ''date'' cutoff] r
             = (field r ''user_id'' = VText u \<and> val_gte (field r ''date'') cutoff)" for r
    by (auto simp: matches_def)
  from assms have ty: "column_type t c = None" for c
    by (auto simp: column_type_def)
  from assms obtain cols where cols: "table_columns t = Some cols"
    "''user_id'' \<in> set cols" "''date'' \<in> set cols" "''amount'' \<in> set cols"
    by (auto simp: table_columns_def schema_def)
  then show ?thesis
    by (simp add: postgrest_def statement_def undefined_columns_def pc m ty respond_def project_Some Let_def)
qed

text \<open>
  Claim C3, as amended. \<open>getMonthlyData\<close> sends exactly two requests, first one on
  \<open>income\<close>, then one on \<open>expenses\<close>; each selects the columns \<open>amount\<close> and \<open>date\<close> of
  the rows whose \<open>user_id\<close> is the given user and whose \<open>date\<close> is on or after a cutoff
  day; there is no upper bound on the date. It returns the data and the error of each
  response separately, uncombined. The database answers each request with those columns
  of exactly the matching rows visible to the caller, and no error; so for a user with
  no income and no expense records both lists are empty and both errors are absent.

  The cutoff is computed in the browser: the local calendar month is set back by six,
  with the year carried; a day that the target month does not have runs on into the
  month after it (a month has 31 days, or 30 in April, June, September and November, or
  28 in February and 29 in a leap year); the time of day is kept; and the cutoff is the
  UTC date of that instant, which is the local date, or the day before it (zones ahead
  of UTC, early in the day), or the day after it (zones behind UTC, late in the day).
\<close>

theorem getMonthlyData_two_queries:
  fixes b :: "(request, 'e response, 's) backend"
  shows "let sixMonthsAgo = setMonth today (int (month today) - 6);
             cutoff = VDate (isoDate tza sixMonthsAgo);
             qI = \<lparr>tbl = ''income'', verb = SELECT ''amount, date'',
                   filters = [Eq ''user_id'' (VText userId), Gte ''date'' cutoff],
                   order_by = None, returning = None, single = False\<rparr>;
             qE = qI\<lparr>tbl := ''expenses''\<rparr>;
             ty = (if month today < 6 then fullYear today - 1 else fullYear today);
             tm = (if month today < 6 then month today + 6 else month today - 6);
             ms = msOfDay today - tza sixMonthsAgo
         in trace b (getMonthlyData tza today userId) s
              = [Sent qI, Received qI (fst (b qI s)), Sent qE, Received qE (fst (b qE (snd (b qI s))))]
          \<and> fst (run b (getMonthlyData tza today userId) s)
              = \<lparr>incomeData = data (fst (b qI s)), expenseData = data (fst (b qE (snd (b qI s)))),
                 incomeError = error (fst (b qI s)), expenseError = error (fst (b qE (snd (b qI s))))\<rparr>
          \<and> postgrest qI w
              = (\<lparr>data = ManyRows (map (\<lambda>r. [(''amount'', field r ''amount''), (''date'', field r ''date'')])
                    (filter (\<lambda>r. visible w ''income'' r \<and> field r ''user_id'' = VText userId
                                   \<and> val_gte (field r ''date'') cutoff) (tables w ''income''))),
                  error = None\<rparr>, tick w)
          \<and> postgrest qE w
              = (\<lparr>data = ManyRows (map (\<lambda>r. [(''amount'', field r ''amount''), (''date'', field r ''date'')])
                    (filter (\<lambda>r. visible w ''expenses'' r \<and> field r ''user_id'' = VText userId
                                   \<and> val_gte (field r ''date'') cutoff) (tables w ''expenses''))),
                  error = None\<rparr>, tick w)
          \<and> (\<forall>y1 m1 d1 y2 m2 d2. val_gte (VDate (y1, m1, d1)) (VDate (y2, m2, d2))
                \<longleftrightarrow> y2 < y1 \<or> (y2 = y1 \<and> (m2 < m1 \<or> (m2 = m1 \<and> d2 \<le> d1))))
          \<and> ((\<forall>r \<in> set (tables w ''income'') \<union> set (tables w ''expenses''). field r ''user_id'' \<noteq> VText userId)
                \<longrightarrow> run postgrest (getMonthlyData tza today userId) w
                      = (\<lparr>incomeData = ManyRows [], expenseData = ManyRows [],
                          incomeError = None, expenseError = None\<rparr>, tick (tick w)))
          \<and> (\<forall>y m. m < 12 \<longrightarrow> days_in_month y m
                = [31, if y mod 4 = 0 \<and> (y mod 100 \<noteq> 0 \<or> y mod 400 = 0) then 29 else 28,
                   31, 30, 31, 30, 31, 31, 30, 31, 30, 31] ! m)
          \<and> (month today < 12 \<longrightarrow>
                sixMonthsAgo
                  = (if day today \<le> days_in_month ty tm
                       then \<lparr>fullYear = ty, month = tm, day = day today, msOfDay = msOfDay today\<rparr>
                     else if tm = 11
                       then \<lparr>fullYear = ty + 1, month = 0, day = day today - days_in_month ty tm,
                             msOfDay = msOfDay today\<rparr>
                       else \<lparr>fullYear = ty, month = tm + 1, day = day today - days_in_month ty tm,
                             msOfDay = msOfDay today\<rparr>))
          \<and> (0 \<le> ms \<and> ms < 86400000 \<longrightarrow>
                cutoff = VDate (fullYear sixMonthsAgo, month sixMonthsAgo + 1, day sixMonthsAgo))
          \<and> (- 86400000 \<le> ms \<and> ms < 0 \<longrightarrow>
                cutoff = VDate
                  (if 1 < day sixMonthsAgo
                     then (fullYear sixMonthsAgo, month sixMonthsAgo + 1, day sixMonthsAgo - 1)
                   else if month sixMonthsAgo = 0 then (fullYear sixMonthsAgo - 1, 12, 31)
                   else (fullYear sixMonthsAgo, month sixMonthsAgo,
                         days_in_month (fullYear sixMonthsAgo) (month sixMonthsAgo - 1))))
          \<and> (86400000 \<le> ms \<and> ms < 2 * 86400000 \<longrightarrow>
                cutoff = VDate
                  (if day sixMonthsAgo < days_in_month (fullYear sixMonthsAgo) (month sixMonthsAgo)
                     then (fullYear sixMonthsAgo, month sixMonthsAgo + 1, day sixMonthsAgo + 1)
                   else if month sixMonthsAgo = 11 then (fullYear sixMonthsAgo + 1, 1, 1)
                   else (fullYear sixMonthsAgo, month sixMonthsAgo + 2, 1)))"
proof -
  define sixMonthsAgo where "sixMonthsAgo = setMonth today (int (month today) - 6)"
  define cutoff where "cutoff = VDate (isoDate tza sixMonthsAgo)"
  define qI where "qI = \<lparr>tbl = ''income'', verb = SELECT ''amount, date'',
                   filters = [Eq ''user_id'' (VText userId), Gte ''date'' cutoff],
                   order_by = None, returning = None, single = False\<rparr>"
  define qE where "qE = \<lparr>tbl = ''expenses'', verb = SELECT ''amount, date'',
                   filters = [Eq ''user_id'' (VText userId), Gte ''date'' cutoff],
                   order_by = None, returning = None, single = False\<rparr>"
  define ty where "ty = (if month today < 6 then fullYear today - 1 else fullYear today)"
  define tm where "tm = (if month today < 6 then month today + 6 else month today - 6)"
  define ms where "ms = msOfDay today - tza sixMonthsAgo"
  have prog: "getMonthlyData tza today userId
       = Await qI (\<lambda>income. Await qE (\<lambda>expense.
           Return \<lparr>incomeData = data income, expenseData = data expense,
                   incomeError = error income, expenseError = error expense\<rparr>))"
    by (simp add: getMonthlyData_def Let_def builder_defs qI_def qE_def cutoff_def sixMonthsAgo_def)
  have tr: "trace b (getMonthlyData tza today userId) s
              = [Sent qI, Received qI (fst (b qI s)), Sent qE, Received qE (fst (b qE (snd (b qI s))))]"
    by (simp add: prog case_prod_beta)
  have res: "fst (run b (getMonthlyData tza today userId) s)
              = \<lparr>incomeData = data (fst (b qI s)), expenseData = data (fst (b qE (snd (b qI s)))),
                 incomeError = error (fst (b qI s)), expenseError = error (fst (b qE (snd (b qI s))))\<rparr>"
    by (simp add: prog case_prod_beta)
  have pI: "postgrest qI w
              = (\<lparr>data = ManyRows (map (\<lambda>r. [(''amount'', field r ''amount''), (''date'', field r ''date'')])
                    (filter (\<lambda>r. visible w ''income'' r \<and> field r ''user_id'' = VText userId
                                   \<and> val_gte (field r ''date'') cutoff) (tables w ''income''))),
                  error = None\<rparr>, tick w)" for w
    unfolding qI_def by (rule monthly_query) simp
  have pE: "postgrest qE w
              = (\<lparr>data = ManyRows (map (\<lambda>r. [(''amount'', field r ''amount''), (''date'', field r ''date'')])
                    (filter (\<lambda>r. visible w ''expenses'' r \<and> field r ''user_id'' = VText userId
                                   \<and> val_gte (field r ''date'') cutoff) (tables w ''expenses''))),
                  error = None\<rparr>, tick w)" for w
    unfolding qE_def by (rule monthly_query) simp
  have gte: "\<forall>y1 m1 d1 y2 m2 d2. val_gte (VDate (y1, m1, d1)) (VDate (y2, m2, d2))
                \<longleftrightarrow> y2 < y1 \<or> (y2 = y1 \<and> (m2 < m1 \<or> (m2 = m1 \<and> d2 \<le> d1)))"
    by (auto simp: less_eq_prod_def)
  have none: "run postgrest (getMonthlyData tza today userId) w
                      = (\<lparr>incomeData = ManyRows [], expenseData = ManyRows [],
                          incomeError = None, expenseError = None\<rparr>, tick (tick w))"
    if norec: "\<forall>r \<in> set (tables w ''income'') \<union> set (tables w ''expenses''). field r ''user_id'' \<noteq> VText userId"
  proof -
    from norec have "filter (\<lambda>r. visible w ''income'' r \<and> field r ''user_id'' = VText userId
                                   \<and> val_gte (field r ''date'') cutoff) (tables w ''income'') = []"
      and "filter (\<lambda>r. visible (tick w) ''expenses'' r \<and> field r ''user_id'' = VText userId
                                   \<and> val_gte (field r ''date'') cutoff) (tables (tick w) ''expenses'') = []"
      by (auto simp: filter_empty_conv)
    with pI [of w] pE [of "tick w"] show ?thesis by (simp add: prog)
  qed
  have dim: "\<forall>y m. m < 12 \<longrightarrow> days_in_month y m
                = [31, if y mod 4 = 0 \<and> (y mod 100 \<noteq> 0 \<or> y mod 400 = 0) then 29 else 28,
                   31, 30, 31, 30, 31, 31, 30, 31, 30, 31] ! m"
    using days_in_month_table by blast
  have sixm: "sixMonthsAgo
                  = (if day today \<le> days_in_month ty tm
                       then \<lparr>fullYear = ty, month = tm, day = day today, msOfDay = msOfDay today\<rparr>
                     else if tm = 11
                       then \<lparr>fullYear = ty + 1, month = 0, day = day today - days_in_month ty tm,
                             msOfDay = msOfDay today\<rparr>
                       else \<lparr>fullYear = ty, month = tm + 1, day = day today - days_in_month ty tm,
                             msOfDay = msOfDay today\<rparr>)"
    if "month today < 12"
    unfolding sixMonthsAgo_def setMonth_six_back [OF that] Let_def ty_def [symmetric] tm_def [symmetric]
    by (cases today) simp
  have tod: "msOfDay sixMonthsAgo = msOfDay today"
    by (simp add: sixMonthsAgo_def setMonth_def Let_def)
  have same: "cutoff = VDate (fullYear sixMonthsAgo, month sixMonthsAgo + 1, day sixMonthsAgo)"
    if "0 \<le> ms \<and> ms < 86400000"
    using that isoDate_same_day [of sixMonthsAgo tza] by (simp add: cutoff_def ms_def tod)
  have before: "cutoff = VDate
                  (if 1 < day sixMonthsAgo
                     then (fullYear sixMonthsAgo, month sixMonthsAgo + 1, day sixMonthsAgo - 1)
                   else if month sixMonthsAgo = 0 then (fullYear sixMonthsAgo - 1, 12, 31)
                   else (fullYear sixMonthsAgo, month sixMonthsAgo,
                         days_in_month (fullYear sixMonthsAgo) (month sixMonthsAgo - 1)))"
    if "- 86400000 \<le> ms \<and> ms < 0"
    using that isoDate_day_before [of sixMonthsAgo tza] by (simp add: cutoff_def ms_def tod)
  have after: "cutoff = VDate
                  (if day sixMonthsAgo < days_in_month (fullYear sixMonthsAgo) (month sixMonthsAgo)
                     then (fullYear sixMonthsAgo, month sixMonthsAgo + 1, day sixMonthsAgo + 1)
                   else if month sixMonthsAgo = 11 then (fullYear sixMonthsAgo + 1, 1, 1)
                   else (fullYear sixMonthsAgo, month sixMonthsAgo + 2, 1))"
    if "86400000 \<le> ms \<and> ms < 2 * 86400000"
    using that isoDate_day_after [of sixMonthsAgo tza] by (simp add: cutoff_def ms_def tod)
  have qE': "qI\<lparr>tbl := ''expenses''\<rparr> = qE" by (simp add: qI_def qE_def)
  from tr res pI [of w] pE [of w] gte none dim sixm same before after show ?thesis
    unfolding Let_def sixMonthsAgo_def [symmetric] cutoff_def [symmetric] qI_def [symmetric] qE'
      ty_def [symmetric] tm_def [symmetric] ms_def [symmetric]
    by (intro conjI impI) (assumption | blast)+
qed

theorem getMonthlyData_two_queries_witness:
  "run postgrest (getMonthlyData utc \<lparr>fullYear = 2025, month = 7, day = 31, msOfDay = 43200000\<rparr> ''u3'')
        example_world
     = (\<lparr>incomeData = ManyRows [], expenseData = ManyRows [], incomeError = None, expenseError = None\<rparr>,
        tick (tick example_world))
   \<and> setMonth \<lparr>fullYear = 2025, month = 7, day = 31, msOfDay = 43200000\<rparr> 1
        = \<lparr>fullYear = 2025, month = 2, day = 3, msOfDay = 43200000\<rparr>
   \<and> isoDate utc (setMonth \<lparr>fullYear = 2025, month = 7, day = 31, msOfDay = 43200000\<rparr> 1) = (2025, 3, 3)
   \<and> setMonth \<lparr>fullYear = 2025, month = 2, day = 15, msOfDay = 7200000\<rparr> (- 4)
        = \<lparr>fullYear = 2024, month = 8, day = 15, msOfDay = 7200000\<rparr>
   \<and> isoDate ahead_5h30 (setMonth \<lparr>fullYear = 2025, month = 2, day = 15, msOfDay = 7200000\<rparr> (- 4))
        = (2024, 9, 14)"
  using getMonthlyData_two_queries [where today = "\<lparr>fullYear = 2025, month = 7, day = 31, msOfDay = 43200000\<rparr>"
          and tza = utc and userId = "''u3''" and w = example_world and b = postgrest and s = example_world]
        getMonthlyData_two_queries [where today = "\<lparr>fullYear = 2025, month = 2, day = 15, msOfDay = 7200000\<rparr>"
          and tza = ahead_5h30 and userId = "''u3''" and w = example_world and b = postgrest and s = example_world]
  by (simp add: Let_def example_world_def income_row_def field_def utc_def ahead_5h30_def
      setMonth_def days_in_month_def leap_year_def)

text \<open>
  Claim C3 as stated fails: the rows are not restricted to the trailing six months. On
  15 August 2025 the cutoff is 15 February 2025, and the income list of a user holds,
  beside a record of March 2025, a record dated 1 January 2031.
\<close>

theorem getMonthlyData_returns_future_records:
  "incomeData (fst (run postgrest
       (getMonthlyData utc \<lparr>fullYear = 2025, month = 7, day = 15, msOfDay = 43200000\<rparr> ''u1'') future_world))
     = ManyRows [[(''amount'', VNum 5), (''date'', VDate (2025, 3, 1))],
                 [(''amount'', VNum 8), (''date'', VDate (2031, 1, 1))]]
   \<and> isoDate utc (setMonth \<lparr>fullYear = 2025, month = 7, day = 15, msOfDay = 43200000\<rparr> 1) = (2025, 2, 15)
   \<and> uid future_world = Some ''u1''"
  by code_simp

text \<open>
  Claim C4, as amended. The two calls of \<open>getMonthlyData\<close> are made one after the
  other: in every execution, against every backend, the income request is sent and its
  response received before the expense request is sent, so the income call always
  completes first, and the expense request sees the backend as the income request left
  it. Both requests are fixed before any response arrives, so the expense request is sent
  whatever the income response was, and each error returned is that of its own response.
\<close>

theorem getMonthlyData_calls_in_sequence:
  "\<exists>qI qE. tbl qI = ''income'' \<and> tbl qE = ''expenses''
      \<and> (\<forall>(b :: (request, 'e response, 's) backend) s.
            trace b (getMonthlyData tza today userId) s
              = [Sent qI, Received qI (fst (b qI s)), Sent qE, Received qE (fst (b qE (snd (b qI s))))]
          \<and> map_option tbl (first_completed (trace b (getMonthlyData tza today userId) s)) = Some ''income''
          \<and> incomeError (fst (run b (getMonthlyData tza today userId) s)) = error (fst (b qI s))
          \<and> expenseError (fst (run b (getMonthlyData tza today userId) s)) = error (fst (b qE (snd (b qI s)))))"
proof -
  let ?d = "VDate (isoDate tza (setMonth today (int (month today) - 6)))"
  let ?qI = "gte_filter ''date'' ?d
               (eq_filter ''user_id'' (VText userId) (select_cols (from_table ''income'') ''amount, date''))"
  let ?qE = "gte_filter ''date'' ?d
               (eq_filter ''user_id'' (VText userId) (select_cols (from_table ''expenses'') ''amount, date''))"
  have "tbl ?qI = ''income''" and "tbl ?qE = ''expenses''"
    by (simp_all add: builder_defs)
  moreover have "\<forall>(b :: (request, 'e response, 's) backend) s.
            trace b (getMonthlyData tza today userId) s
              = [Sent ?qI, Received ?qI (fst (b ?qI s)), Sent ?qE, Received ?qE (fst (b ?qE (snd (b ?qI s))))]
          \<and> map_option tbl (first_completed (trace b (getMonthlyData tza today userId) s)) = Some ''income''
          \<and> incomeError (fst (run b (getMonthlyData tza today userId) s)) = error (fst (b ?qI s))
          \<and> expenseError (fst (run b (getMonthlyData tza today userId) s)) = error (fst (b ?qE (snd (b ?qI s))))"
    by (simp add: getMonthlyData_def Let_def case_prod_beta \<open>tbl ?qI = ''income''\<close>)
  ultimately show ?thesis by blast
qed

theorem getMonthlyData_calls_in_sequence_witness:
  "map_option tbl (first_completed
      (trace postgrest (getMonthlyData utc \<lparr>fullYear = 2025, month = 7, day = 15, msOfDay = 43200000\<rparr> ''u1'') example_world))
     = Some ''income''"
  using getMonthlyData_calls_in_sequence
          [where ?'e = db_error and ?'s = world
             and tza = utc and today = "\<lparr>fullYear = 2025, month = 7, day = 15, msOfDay = 43200000\<rparr>" and userId = "''u1''"]
  by blast

theorem getMonthlyData_expenses_never_first:
  "\<not> (\<exists>(b :: (request, unit response, unit) backend) s.
         map_option tbl (first_completed
            (trace b (getMonthlyData utc \<lparr>fullYear = 2025, month = 7, day = 15, msOfDay = 43200000\<rparr> ''u1'') s))
           = Some ''expenses'')"
  by (simp add: getMonthlyData_def Let_def case_prod_beta builder_defs)

end
